theory Spec2Isabelle
  imports Complex_Main
begin

section \<open>JavaScript values\<close>

text \<open>
  The two source files, \<^verbatim>\<open>convex-client.js\<close> (class \<^verbatim>\<open>ConvexClient\<close>) and
  \<^verbatim>\<open>vortex-interface.js\<close> (class \<^verbatim>\<open>VorteXInterface\<close>), are JavaScript. Their
  behaviour depends on a few rules of the language: truthiness (\<^verbatim>\<open>if (result.errorCode)\<close>,
  \<^verbatim>\<open>result.value || 0\<close>), the conversion of strings to numbers (\<^verbatim>\<open>isNaN(amount)\<close>,
  \<^verbatim>\<open>amount <= 0\<close>, \<^verbatim>\<open>parseFloat\<close>), double-precision multiplication and
  \<^verbatim>\<open>toFixed\<close>. These rules are written out here, after ECMAScript.

  A number is a double: not-a-number, an infinity, or a finite value, kept as the rational it
  denotes. Negative zero is identified with zero (nothing in the two files tells them apart).
  Strings are lists of 8-bit characters; a character outside ASCII is written as its UTF-8 bytes.

  Beside the values that JSON has there are two that a lookup in a plain object can give,
  since it also finds what the object inherits from \<^verbatim>\<open>Object.prototype\<close>: a built-in
  function, kept as the text that it prints as, and \<^verbatim>\<open>Object.prototype\<close> itself.
\<close>

datatype jsnum = NaN | PInf | NInf | Fin rat

datatype jsval =
    JUndefined
  | JNull
  | JBool bool
  | JNum jsnum
  | JStr string
  | JArr "jsval list"
  | JObj "(string \<times> jsval) list"
  | JFun string
  | JProto

text \<open>ToBoolean.\<close>

fun truthy :: "jsval \<Rightarrow> bool" where
  "truthy JUndefined = False"
| "truthy JNull = False"
| "truthy (JBool b) = b"
| "truthy (JNum n) = (n \<noteq> NaN \<and> n \<noteq> Fin 0)"
| "truthy (JStr s) = (s \<noteq> [])"
| "truthy (JArr xs) = True"
| "truthy (JObj kvs) = True"
| "truthy (JFun src) = True"
| "truthy JProto = True"

text \<open>The operator \<^verbatim>\<open>a || b\<close>.\<close>

definition js_or :: "jsval \<Rightarrow> jsval \<Rightarrow> jsval" where
  "js_or a b = (if truthy a then a else b)"

subsection \<open>Rounding to a double\<close>

definition pow2 :: "int \<Rightarrow> rat" where
  "pow2 e = (if 0 \<le> e then 2 ^ nat e else 1 / 2 ^ nat (- e))"

definition pow10 :: "int \<Rightarrow> rat" where
  "pow10 e = (if 0 \<le> e then 10 ^ nat e else 1 / 10 ^ nat (- e))"

text \<open>Nearest integer, a tie going to the even one.\<close>

definition round_half_even :: "rat \<Rightarrow> int" where
  "round_half_even x =
     (let f = \<lfloor>x\<rfloor>; d = x - of_int f
      in if d < 1 / 2 then f
         else if 1 / 2 < d then f + 1
         else if even f then f else f + 1)"

text \<open>The number of binary digits of a natural number.\<close>

fun bitlen :: "nat \<Rightarrow> nat" where
  "bitlen n = (if n = 0 then 0 else Suc (bitlen (n div 2)))"

declare bitlen.simps [simp del]

text \<open>
  The binary exponent of a positive rational \<open>x\<close>, that is the \<open>e\<close> with
  \<open>2^e \<le> x < 2^(e+1)\<close>. From 1 on it is that of the integer part. Below 1, with
  \<open>c\<close> the least integer from \<open>1 / x\<close> up, it is the \<open>e\<close> with
  \<open>2^(-e-1) < c \<le> 2^(-e)\<close>.
\<close>

definition floor_log2 :: "rat \<Rightarrow> int" where
  "floor_log2 x =
     (if 1 \<le> x then int (bitlen (nat \<lfloor>x\<rfloor>)) - 1
      else - int (bitlen (nat \<lceil>1 / x\<rceil> - 1)))"

text \<open>
  IEEE 754 binary64, round to nearest, ties to even: 53 significant bits, the least exponent
  -1022 (below it the spacing stays \<open>2^-1074\<close>: subnormal numbers), and an infinity from
  \<open>2^1024\<close> on.
\<close>

definition round64 :: "rat \<Rightarrow> jsnum" where
  "round64 x =
     (if x = 0 then Fin 0
      else
        let a = \<bar>x\<bar>;
            e = max (floor_log2 a) (- 1022);
            u = pow2 (e - 52);
            v = of_int (round_half_even (a / u)) * u
        in if pow2 1024 \<le> v then (if 0 < x then PInf else NInf)
           else Fin (if 0 < x then v else - v))"

text \<open>Multiplication of two doubles.\<close>

fun js_mul :: "jsnum \<Rightarrow> jsnum \<Rightarrow> jsnum" where
  "js_mul NaN y = NaN"
| "js_mul x NaN = NaN"
| "js_mul (Fin a) (Fin b) = round64 (a * b)"
| "js_mul (Fin a) PInf = (if a = 0 then NaN else if 0 < a then PInf else NInf)"
| "js_mul (Fin a) NInf = (if a = 0 then NaN else if 0 < a then NInf else PInf)"
| "js_mul PInf (Fin b) = (if b = 0 then NaN else if 0 < b then PInf else NInf)"
| "js_mul NInf (Fin b) = (if b = 0 then NaN else if 0 < b then NInf else PInf)"
| "js_mul PInf PInf = PInf"
| "js_mul PInf NInf = NInf"
| "js_mul NInf PInf = NInf"
| "js_mul NInf NInf = PInf"

text \<open>The comparison \<^verbatim>\<open>x <= 0\<close> of a number with zero; false on not-a-number.\<close>

fun js_le_zero :: "jsnum \<Rightarrow> bool" where
  "js_le_zero NaN = False"
| "js_le_zero PInf = False"
| "js_le_zero NInf = True"
| "js_le_zero (Fin a) = (a \<le> 0)"

text \<open>\<^verbatim>\<open>!x\<close> for a number \<open>x\<close>.\<close>

definition num_falsy :: "jsnum \<Rightarrow> bool" where
  "num_falsy n = (\<not> truthy (JNum n))"

subsection \<open>Strings and numbers\<close>

definition isDigit :: "char \<Rightarrow> bool" where
  "isDigit c = (c \<in> set ''0123456789'')"

definition digitVal :: "char \<Rightarrow> nat" where
  "digitVal c = of_char c - 48"

definition digitsVal :: "string \<Rightarrow> nat" where
  "digitsVal s = foldl (\<lambda>n c. 10 * n + digitVal c) 0 s"

definition digitChar :: "nat \<Rightarrow> char" where
  "digitChar d = ''0123456789'' ! d"

fun showNat :: "nat \<Rightarrow> string" where
  "showNat n = (if n < 10 then [digitChar n] else showNat (n div 10) @ [digitChar (n mod 10)])"

declare showNat.simps [simp del]

text \<open>
  The white space that the conversions strip, each character as its UTF-8 bytes. These are
  the characters of \<open>WhiteSpace\<close> (TAB, VT, FF, SP, NBSP U+00A0, ZWNBSP U+FEFF and the
  space separators U+1680, U+2000 to U+200A, U+202F, U+205F, U+3000) and of
  \<open>LineTerminator\<close> (LF, CR, U+2028, U+2029).
\<close>

definition whiteSpaces :: "string list" where
  "whiteSpaces =
     [[CHR 0x09], [CHR 0x0A], [CHR 0x0B], [CHR 0x0C], [CHR 0x0D], [CHR 0x20],
      [CHR 0xC2, CHR 0xA0],
      [CHR 0xE1, CHR 0x9A, CHR 0x80],
      [CHR 0xE2, CHR 0x80, CHR 0x80], [CHR 0xE2, CHR 0x80, CHR 0x81],
      [CHR 0xE2, CHR 0x80, CHR 0x82], [CHR 0xE2, CHR 0x80, CHR 0x83],
      [CHR 0xE2, CHR 0x80, CHR 0x84], [CHR 0xE2, CHR 0x80, CHR 0x85],
      [CHR 0xE2, CHR 0x80, CHR 0x86], [CHR 0xE2, CHR 0x80, CHR 0x87],
      [CHR 0xE2, CHR 0x80, CHR 0x88], [CHR 0xE2, CHR 0x80, CHR 0x89],
      [CHR 0xE2, CHR 0x80, CHR 0x8A],
      [CHR 0xE2, CHR 0x80, CHR 0xA8], [CHR 0xE2, CHR 0x80, CHR 0xA9],
      [CHR 0xE2, CHR 0x80, CHR 0xAF],
      [CHR 0xE2, CHR 0x81, CHR 0x9F],
      [CHR 0xE3, CHR 0x80, CHR 0x80],
      [CHR 0xEF, CHR 0xBB, CHR 0xBF]]"

text \<open>
  The number of bytes of the white space character that a string starts with, or ends with;
  0 when it starts, or ends, with another character.
\<close>

definition whiteAtStart :: "string \<Rightarrow> nat" where
  "whiteAtStart s =
     (case find (\<lambda>w. take (length w) s = w) whiteSpaces of
        None \<Rightarrow> 0
      | Some w \<Rightarrow> length w)"

definition whiteAtEnd :: "string \<Rightarrow> nat" where
  "whiteAtEnd s =
     (case find (\<lambda>w. drop (length s - length w) s = w) whiteSpaces of
        None \<Rightarrow> 0
      | Some w \<Rightarrow> length w)"

function trimStart :: "string \<Rightarrow> string" where
  "trimStart s = (if whiteAtStart s = 0 then s else trimStart (drop (whiteAtStart s) s))"
  by pat_completeness auto
termination
proof (relation "measure length")
  show "wf (measure length)" by simp
next
  fix s :: string
  assume "whiteAtStart s \<noteq> 0"
  then have "s \<noteq> []"
    by (cases s) (auto simp add: whiteAtStart_def whiteSpaces_def)
  with \<open>whiteAtStart s \<noteq> 0\<close> show "(drop (whiteAtStart s) s, s) \<in> measure length"
    by simp
qed

function trimEnd :: "string \<Rightarrow> string" where
  "trimEnd s = (if whiteAtEnd s = 0 then s else trimEnd (take (length s - whiteAtEnd s) s))"
  by pat_completeness auto
termination
proof (relation "measure length")
  show "wf (measure length)" by simp
next
  fix s :: string
  assume "whiteAtEnd s \<noteq> 0"
  then have "s \<noteq> []"
    by (cases s) (auto simp add: whiteAtEnd_def whiteSpaces_def)
  with \<open>whiteAtEnd s \<noteq> 0\<close> show "(take (length s - whiteAtEnd s) s, s) \<in> measure length"
    by simp
qed

declare trimStart.simps [simp del] trimEnd.simps [simp del]

definition trim :: "string \<Rightarrow> string" where
  "trim s = trimEnd (trimStart s)"

text \<open>The mathematical value of a numeric literal: an infinity or a rational.\<close>

datatype mv = MInf bool | MV rat

fun mv_neg :: "mv \<Rightarrow> mv" where
  "mv_neg (MInf negative) = MInf (\<not> negative)"
| "mv_neg (MV r) = MV (- r)"

fun mv_num :: "mv \<Rightarrow> jsnum" where
  "mv_num (MInf negative) = (if negative then NInf else PInf)"
| "mv_num (MV r) = round64 r"

text \<open>
  \<open>ExponentPart\<close>: \<open>e\<close> or \<open>E\<close>, an optional sign, one digit or more. The result is the
  exponent and the rest of the string; \<open>None\<close> when the string does not start with one.
\<close>

definition parseExponent :: "string \<Rightarrow> (int \<times> string) option" where
  "parseExponent s =
     (case s of
        [] \<Rightarrow> None
      | c # t \<Rightarrow>
          if c = CHR ''e'' \<or> c = CHR ''E'' then
            (let (negative, u) =
                   (case t of
                      [] \<Rightarrow> (False, t)
                    | d # t' \<Rightarrow> if d = CHR ''-'' then (True, t')
                                else if d = CHR ''+'' then (False, t') else (False, t));
                 ds = takeWhile isDigit u
             in if ds = [] then None
                else Some (if negative then - int (digitsVal ds) else int (digitsVal ds),
                           dropWhile isDigit u))
          else None)"

definition withExponent :: "rat \<Rightarrow> string \<Rightarrow> (mv \<times> string) option" where
  "withExponent m s =
     (case parseExponent s of
        Some (e, rest) \<Rightarrow> Some (MV (m * pow10 e), rest)
      | None \<Rightarrow> Some (MV m, s))"

text \<open>
  The longest prefix that is a \<open>StrUnsignedDecimalLiteral\<close>: \<open>Infinity\<close>, or digits with an
  optional fraction and exponent, or a fraction that starts with the point.
\<close>

definition parseUnsignedDecimal :: "string \<Rightarrow> (mv \<times> string) option" where
  "parseUnsignedDecimal s =
     (if take 8 s = ''Infinity'' then Some (MInf False, drop 8 s)
      else
        let ip = takeWhile isDigit s; r1 = dropWhile isDigit s
        in case r1 of
             [] \<Rightarrow> (if ip = [] then None else Some (MV (of_nat (digitsVal ip)), []))
           | c # r2 \<Rightarrow>
               if c = CHR ''.'' then
                 (let fp = takeWhile isDigit r2; r3 = dropWhile isDigit r2
                  in if ip = [] \<and> fp = [] then None
                     else withExponent
                            (of_nat (digitsVal ip) + of_nat (digitsVal fp) / 10 ^ length fp) r3)
               else if ip = [] then None
               else withExponent (of_nat (digitsVal ip)) r1)"

text \<open>\<open>StrDecimalLiteral\<close>: an optional sign in front.\<close>

definition parseDecimal :: "string \<Rightarrow> (mv \<times> string) option" where
  "parseDecimal s =
     (case s of
        [] \<Rightarrow> None
      | c # t \<Rightarrow>
          if c = CHR ''+'' then parseUnsignedDecimal t
          else if c = CHR ''-'' then map_option (\<lambda>(v, rest). (mv_neg v, rest)) (parseUnsignedDecimal t)
          else parseUnsignedDecimal s)"

text \<open>The global function \<^verbatim>\<open>parseFloat\<close> on a string.\<close>

definition parseFloat :: "string \<Rightarrow> jsnum" where
  "parseFloat s =
     (case parseDecimal (trimStart s) of
        None \<Rightarrow> NaN
      | Some (v, rest) \<Rightarrow> mv_num v)"

text \<open>Literals in base 16, 8 and 2 (\<open>0x\<close>, \<open>0o\<close>, \<open>0b\<close>), which carry no sign.\<close>

definition hexVal :: "char \<Rightarrow> nat option" where
  "hexVal c =
     (if isDigit c then Some (digitVal c)
      else if c \<in> set ''abcdef'' then Some (of_char c - 87)
      else if c \<in> set ''ABCDEF'' then Some (of_char c - 55)
      else None)"

definition baseDigits :: "nat \<Rightarrow> string \<Rightarrow> nat option" where
  "baseDigits b s =
     (if s \<noteq> [] \<and> (\<forall>c \<in> set s. case hexVal c of None \<Rightarrow> False | Some d \<Rightarrow> d < b)
      then Some (foldl (\<lambda>n c. b * n + the (hexVal c)) 0 s)
      else None)"

definition parseNonDecimal :: "string \<Rightarrow> nat option" where
  "parseNonDecimal s =
     (case s of
        z # p # ds \<Rightarrow>
          if z \<noteq> CHR ''0'' then None
          else if p = CHR ''x'' \<or> p = CHR ''X'' then baseDigits 16 ds
          else if p = CHR ''o'' \<or> p = CHR ''O'' then baseDigits 8 ds
          else if p = CHR ''b'' \<or> p = CHR ''B'' then baseDigits 2 ds
          else None
      | _ \<Rightarrow> None)"

text \<open>
  ToNumber on a string, which \<^verbatim>\<open>isNaN(amount)\<close> and \<^verbatim>\<open>amount <= 0\<close> apply to their string
  argument: the whole trimmed string has to be a literal, and the empty string is 0.
\<close>

definition stringToNumber :: "string \<Rightarrow> jsnum" where
  "stringToNumber s =
     (let t = trim s
      in if t = [] then Fin 0
         else case parseNonDecimal t of
                Some n \<Rightarrow> round64 (of_nat n)
              | None \<Rightarrow>
                  (case parseDecimal t of
                     Some (v, []) \<Rightarrow> mv_num v
                   | _ \<Rightarrow> NaN))"

subsection \<open>Numbers to strings\<close>

text \<open>
  \<open>Number::toString\<close> is written out for the values that are not finite and for the integers
  below \<open>2^53\<close> in magnitude, which print as their decimal digits. For every other finite
  value it is the parameter \<open>fts\<close> (the shortest digits that read back as the same double);
  no property below depends on it.
\<close>

definition numToString :: "(rat \<Rightarrow> string) \<Rightarrow> jsnum \<Rightarrow> string" where
  "numToString fts x =
     (case x of
        NaN \<Rightarrow> ''NaN''
      | PInf \<Rightarrow> ''Infinity''
      | NInf \<Rightarrow> ''-Infinity''
      | Fin r \<Rightarrow>
          if r = of_int \<lfloor>r\<rfloor> \<and> \<bar>r\<bar> < 2 ^ 53
          then (if r < 0 then ''-'' else []) @ showNat (nat \<bar>\<lfloor>r\<rfloor>\<bar>)
          else fts r)"

text \<open>
  \<open>Number.prototype.toFixed(f)\<close>: the integer \<open>n\<close> nearest to \<open>x * 10^f\<close> (the larger one on
  a tie), its digits padded with zeros to \<open>f + 1\<close> places, and the point \<open>f\<close> places from the
  right. From \<open>10^21\<close> on, and for a value that is not finite, the result is that of
  \<open>Number::toString\<close>.
\<close>

definition toFixed :: "(rat \<Rightarrow> string) \<Rightarrow> nat \<Rightarrow> jsnum \<Rightarrow> string" where
  "toFixed fts f x =
     (case x of
        Fin r \<Rightarrow>
          (let s = (if r < 0 then ''-'' else []); a = \<bar>r\<bar>
           in if 10 ^ 21 \<le> a then s @ numToString fts (Fin a)
              else
                let n = nat \<lfloor>a * 10 ^ f + 1 / 2\<rfloor>;
                    m = showNat n;
                    m' = replicate (f + 1 - length m) CHR ''0'' @ m;
                    k = length m'
                in if f = 0 then s @ m
                   else s @ take (k - f) m' @ ''.'' @ drop (k - f) m')
      | _ \<Rightarrow> numToString fts x)"

text \<open>
  ToString on a value, as a template literal \<^verbatim>\<open>${v}\<close> applies it. An array prints its
  elements separated by commas, with nothing for \<^verbatim>\<open>null\<close> and \<^verbatim>\<open>undefined\<close>.
\<close>

fun joinWith :: "string \<Rightarrow> string list \<Rightarrow> string" where
  "joinWith sep [] = []"
| "joinWith sep [x] = x"
| "joinWith sep (x # y # zs) = x @ sep @ joinWith sep (y # zs)"

fun toStr :: "(rat \<Rightarrow> string) \<Rightarrow> jsval \<Rightarrow> string" where
  "toStr fts JUndefined = ''undefined''"
| "toStr fts JNull = ''null''"
| "toStr fts (JBool b) = (if b then ''true'' else ''false'')"
| "toStr fts (JNum n) = numToString fts n"
| "toStr fts (JStr s) = s"
| "toStr fts (JArr xs) =
     joinWith '',''
       (map (\<lambda>v. if v = JNull \<or> v = JUndefined then [] else toStr fts v) xs)"
| "toStr fts (JObj kvs) = ''[object Object]''"
| "toStr fts (JFun src) = src"
| "toStr fts JProto = ''[object Object]''"

text \<open>
  Reading a property of a parsed JSON value. On \<^verbatim>\<open>null\<close> and \<^verbatim>\<open>undefined\<close> it throws a
  TypeError; a primitive or an array has none of the properties the two files read
  (\<^verbatim>\<open>value\<close>, \<^verbatim>\<open>errorCode\<close>), so the result is \<^verbatim>\<open>undefined\<close>; an object answers from its
  own properties.
\<close>

datatype errkind = GenericError | TypeErr | SyntaxErr | NetworkErr | TimeoutErr

datatype error = Thrown (kind: errkind) (message: string)

definition getProp :: "jsval \<Rightarrow> string \<Rightarrow> error + jsval" where
  "getProp v name =
     (case v of
        JUndefined \<Rightarrow>
          Inl (Thrown TypeErr
                (''Cannot read properties of undefined (reading '' @ [CHR 0x27] @ name @ [CHR 0x27] @ '')''))
      | JNull \<Rightarrow>
          Inl (Thrown TypeErr
                (''Cannot read properties of null (reading '' @ [CHR 0x27] @ name @ [CHR 0x27] @ '')''))
      | JObj kvs \<Rightarrow> Inr (case map_of kvs name of None \<Rightarrow> JUndefined | Some x \<Rightarrow> x)
      | _ \<Rightarrow> Inr JUndefined)"

section \<open>The peer and the page\<close>

text \<open>
  Every network call of the two files is a \<^verbatim>\<open>fetch\<close> with method POST and a JSON body. A
  request is kept as its URL and the object handed to \<^verbatim>\<open>JSON.stringify\<close>. What comes back
  is decided by the peer: the promise rejects (no transport, or the 30 second
  \<^verbatim>\<open>AbortSignal.timeout\<close>), or a response arrives with a status, a status text and a body,
  on which \<^verbatim>\<open>response.json()\<close> rejects or yields a value.

  What the program does to the outside is kept as a list of effects, the oldest first: the
  requests sent, the \<^verbatim>\<open>alert\<close> texts of \<^verbatim>\<open>showNotification\<close>, and the writes to the
  presentation elements of the page (buttons, token labels, balance labels), one effect for
  each method that writes them. The elements themselves, the CSS selectors that find them
  and the \<^verbatim>\<open>feather\<close> icon library belong to the page, which is not part of the two files;
  neither is the output of \<^verbatim>\<open>console\<close>. The only elements kept as state are the inputs that
  \<^verbatim>\<open>.token-input input[type="number"]\<close> selects, as the list of their values in document
  order, since the program reads them back.

  Each handler is run to its end: where the source starts an \<^verbatim>\<open>async\<close> method without
  \<^verbatim>\<open>await\<close> (\<^verbatim>\<open>this.updateBalances()\<close>), the method is run at the place of the call.
\<close>

datatype request = Post (url: string) (body: jsval)

datatype payload = BadJson error | Json jsval

datatype fetch_outcome = Rejected error | Response nat string payload

datatype effect =
    Fetch request
  | Notify string
  | ShowLoading string
  | HideLoading bool
  | RenderTokens string string
  | RenderBalances string string

text \<open>
  The surroundings of a run: the peer, which answers a request knowing the requests sent
  before it, the two number formats of the runtime that are not written out above, and the
  text that the runtime prints for the built-in function of \<^verbatim>\<open>Object.prototype\<close> with a
  given name (its layout is left to the implementation).
\<close>

record env =
  peer :: "request list \<Rightarrow> request \<Rightarrow> fetch_outcome"
  finiteToString :: "rat \<Rightarrow> string"
  toLocaleString :: "jsval \<Rightarrow> string"
  nativeSource :: "string \<Rightarrow> string"

fun requests :: "effect list \<Rightarrow> request list" where
  "requests [] = []"
| "requests (Fetch r # es) = r # requests es"
| "requests (e # es) = requests es"

definition fetch :: "env \<Rightarrow> request \<Rightarrow> effect list \<Rightarrow> fetch_outcome \<times> effect list" where
  "fetch env req lg = (peer env (requests lg) req, lg @ [Fetch req])"

text \<open>\<^verbatim>\<open>response.ok\<close>.\<close>

definition ok :: "nat \<Rightarrow> bool" where
  "ok status = (200 \<le> status \<and> status \<le> 299)"

section \<open>\<^verbatim>\<open>ConvexClient\<close>\<close>

text \<open>
  The fields the constructor sets. The counter \<^verbatim>\<open>sequence\<close> only ever starts at 0 and is
  incremented, so it is a natural number.
\<close>

record client =
  peerUrl :: string
  address :: jsval
  keyPair :: jsval
  sequence :: nat
  isConnected_client :: bool
  timeout :: nat

text \<open>
  \<^verbatim>\<open>query\<close>, the part after the \<^verbatim>\<open>fetch\<close>: what the \<^verbatim>\<open>try\<close> block returns or throws on
  each outcome. The \<^verbatim>\<open>catch\<close> block logs and throws the same error again.
\<close>

definition queryResult :: "env \<Rightarrow> fetch_outcome \<Rightarrow> error + jsval" where
  "queryResult env out =
     (case out of
        Rejected e \<Rightarrow> Inl e
      | Response status statusText pl \<Rightarrow>
          if \<not> ok status
          then Inl (Thrown GenericError (''Query failed: '' @ showNat status @ '' '' @ statusText))
          else
            (case pl of
               BadJson e \<Rightarrow> Inl e
             | Json result \<Rightarrow>
                 (case getProp result ''errorCode'' of
                    Inl e \<Rightarrow> Inl e
                  | Inr errorCode \<Rightarrow>
                      if truthy errorCode
                      then
                        (case getProp result ''value'' of
                           Inl e \<Rightarrow> Inl e
                         | Inr v \<Rightarrow>
                             Inl (Thrown GenericError
                                   (''Convex error: '' @ toStr (finiteToString env) (js_or v errorCode))))
                      else Inr result)))"

text \<open>The requests of \<^verbatim>\<open>query\<close> and of \<^verbatim>\<open>transact\<close>.\<close>

definition queryRequest :: "client \<Rightarrow> jsval \<Rightarrow> string \<Rightarrow> request" where
  "queryRequest c a source =
     Post (peerUrl c @ ''/api/v1/query'') (JObj [(''address'', a), (''source'', JStr source)])"

definition transactRequest :: "client \<Rightarrow> string \<Rightarrow> request" where
  "transactRequest c source =
     Post (peerUrl c @ ''/api/v1/transact'')
       (JObj [(''address'', address c), (''source'', JStr source), (''seed'', keyPair c)])"

text \<open>
  \<^verbatim>\<open>query(source, address = this.address)\<close>: the default applies when the argument is
  \<^verbatim>\<open>undefined\<close>.
\<close>

definition query ::
    "env \<Rightarrow> client \<Rightarrow> string \<Rightarrow> jsval \<Rightarrow> effect list \<Rightarrow> (error + jsval) \<times> effect list" where
  "query env c source addressArg lg =
     (let address' = (if addressArg = JUndefined then address c else addressArg);
          (out, lg') = fetch env (queryRequest c address' source) lg
      in (queryResult env out, lg'))"

text \<open>\<^verbatim>\<open>transact\<close>, the part after the \<^verbatim>\<open>fetch\<close>, up to the increment of the counter.\<close>

definition transactResult :: "env \<Rightarrow> fetch_outcome \<Rightarrow> error + jsval" where
  "transactResult env out =
     (case out of
        Rejected e \<Rightarrow> Inl e
      | Response status statusText pl \<Rightarrow>
          if \<not> ok status
          then Inl (Thrown GenericError
                     (''Transaction failed: '' @ showNat status @ '' '' @ statusText))
          else
            (case pl of
               BadJson e \<Rightarrow> Inl e
             | Json result \<Rightarrow>
                 (case getProp result ''errorCode'' of
                    Inl e \<Rightarrow> Inl e
                  | Inr errorCode \<Rightarrow>
                      if truthy errorCode
                      then
                        (case getProp result ''value'' of
                           Inl e \<Rightarrow> Inl e
                         | Inr v \<Rightarrow>
                             Inl (Thrown GenericError
                                   (''Transaction error: '' @
                                    toStr (finiteToString env) (js_or v errorCode))))
                      else Inr result)))"

definition transact ::
    "env \<Rightarrow> client \<Rightarrow> string \<Rightarrow> effect list \<Rightarrow> (error + jsval) \<times> client \<times> effect list" where
  "transact env c source lg =
     (if \<not> isConnected_client c
      then (Inl (Thrown GenericError ''Not connected to Convex network''), c, lg)
      else if \<not> truthy (address c)
      then (Inl (Thrown GenericError ''No address set for transaction''), c, lg)
      else
        let (out, lg') = fetch env (transactRequest c source) lg
        in case transactResult env out of
             Inl e \<Rightarrow> (Inl e, c, lg')
           | Inr result \<Rightarrow> (Inr result, c\<lparr>sequence := sequence c + 1\<rparr>, lg'))"

text \<open>The source text \<^verbatim>\<open>(balance ${address})\<close>.\<close>

definition balanceSource :: "env \<Rightarrow> jsval \<Rightarrow> string" where
  "balanceSource env a = ''(balance '' @ toStr (finiteToString env) a @ '')''"

text \<open>
  \<^verbatim>\<open>getBalance(address = this.address)\<close>. It has no way to fail: its result is a value,
  and the \<^verbatim>\<open>catch\<close> block turns every error into 0.
\<close>

definition getBalance ::
    "env \<Rightarrow> client \<Rightarrow> jsval \<Rightarrow> effect list \<Rightarrow> jsval \<times> effect list" where
  "getBalance env c addressArg lg =
     (let address' = (if addressArg = JUndefined then address c else addressArg);
          (r, lg') = query env c (balanceSource env address') JUndefined lg
      in case r of
           Inl e \<Rightarrow> (JNum (Fin 0), lg')
         | Inr result \<Rightarrow>
             (case getProp result ''value'' of
                Inl e \<Rightarrow> (JNum (Fin 0), lg')
              | Inr v \<Rightarrow> (js_or v (JNum (Fin 0)), lg')))"

definition buySource :: "env \<Rightarrow> jsval \<Rightarrow> jsval \<Rightarrow> string" where
  "buySource env tokenAddress amount =
     ''(do (import exchange.torus :as torus) (torus/buy-tokens '' @
     toStr (finiteToString env) tokenAddress @ '' '' @
     toStr (finiteToString env) amount @ ''))''"

definition buyTokens ::
    "env \<Rightarrow> client \<Rightarrow> jsval \<Rightarrow> jsval \<Rightarrow> effect list \<Rightarrow> (error + jsval) \<times> client \<times> effect list" where
  "buyTokens env c tokenAddress amount lg = transact env c (buySource env tokenAddress amount) lg"

definition sellSource :: "env \<Rightarrow> jsval \<Rightarrow> jsval \<Rightarrow> string" where
  "sellSource env tokenAddress amount =
     ''(do (import exchange.torus :as torus) (torus/sell-tokens '' @
     toStr (finiteToString env) tokenAddress @ '' '' @
     toStr (finiteToString env) amount @ ''))''"

definition sellTokens ::
    "env \<Rightarrow> client \<Rightarrow> jsval \<Rightarrow> jsval \<Rightarrow> effect list \<Rightarrow> (error + jsval) \<times> client \<times> effect list" where
  "sellTokens env c tokenAddress amount lg = transact env c (sellSource env tokenAddress amount) lg"

section \<open>\<^verbatim>\<open>VorteXInterface\<close>\<close>

text \<open>
  The fields of the object, the values of the amount inputs of the page (the first is
  "You pay", the second "You receive"), and the effects so far. The registry \<^verbatim>\<open>tokens\<close>
  is the table of the own properties of the object literal.
\<close>

record vortex =
  convexClient :: "client option"
  isConnected :: bool
  isSwapping :: bool
  tokens :: "(string \<times> jsval) list"
  fromToken :: string
  toToken :: string
  fromAmount :: jsnum
  toAmount :: jsnum
  amountInputs :: "string list"
  effects :: "effect list"

text \<open>The state the constructor builds, on a page with the given amount inputs.\<close>

definition constructor :: "string list \<Rightarrow> vortex" where
  "constructor inputs =
     \<lparr> convexClient = None, isConnected = False, isSwapping = False,
       tokens = [(''CVX'', JNull), (''CVM'', JNull), (''PAI'', JNull), (''USDC'', JNull),
                 (''TOKEN'', JNull)],
       fromToken = ''CVX'', toToken = ''PAI'', fromAmount = Fin 0, toAmount = Fin 0,
       amountInputs = inputs, effects = [] \<rparr>"

text \<open>
  The names of the functions that every plain object inherits from \<^verbatim>\<open>Object.prototype\<close>
  in a browser. The accessor \<^verbatim>\<open>__proto__\<close> is inherited too.
\<close>

definition objectPrototypeFunctions :: "string list" where
  "objectPrototypeFunctions =
     [''constructor'', ''hasOwnProperty'', ''isPrototypeOf'', ''propertyIsEnumerable'',
      ''toLocaleString'', ''toString'', ''valueOf'', ''__defineGetter__'',
      ''__defineSetter__'', ''__lookupGetter__'', ''__lookupSetter__'']"

text \<open>
  \<^verbatim>\<open>this.tokens[symbol]\<close>: the registry's own entry if it has one, else what the object
  literal inherits under that name, else \<^verbatim>\<open>undefined\<close>.
\<close>

definition tokenAddressOf :: "env \<Rightarrow> vortex \<Rightarrow> string \<Rightarrow> jsval" where
  "tokenAddressOf env s symbol =
     (case map_of (tokens s) symbol of
        Some a \<Rightarrow> a
      | None \<Rightarrow>
          if symbol \<in> set objectPrototypeFunctions then JFun (nativeSource env symbol)
          else if symbol = ''__proto__'' then JProto
          else JUndefined)"

definition formatBalance :: "env \<Rightarrow> jsval \<Rightarrow> string" where
  "formatBalance env balance =
     (if \<not> truthy balance \<or> balance = JNum (Fin 0) then ''0''
      else
        let num = (case balance of JStr str \<Rightarrow> JNum (parseFloat str) | _ \<Rightarrow> balance)
        in toLocaleString env num)"

text \<open>The icons of \<^verbatim>\<open>showNotification\<close>, in UTF-8: U+2705, U+274C, and U+2139 U+FE0F.\<close>

definition icon :: "string \<Rightarrow> string" where
  "icon type =
     (if type = ''success'' then [CHR 0xE2, CHR 0x9C, CHR 0x85]
      else if type = ''error'' then [CHR 0xE2, CHR 0x9D, CHR 0x8C]
      else [CHR 0xE2, CHR 0x84, CHR 0xB9, CHR 0xEF, CHR 0xB8, CHR 0x8F])"

definition showNotification :: "string \<Rightarrow> string \<Rightarrow> vortex \<Rightarrow> vortex" where
  "showNotification msg type s = s\<lparr>effects := effects s @ [Notify (icon type @ '' '' @ msg)]\<rparr>"

definition showLoading :: "string \<Rightarrow> vortex \<Rightarrow> vortex" where
  "showLoading msg s = s\<lparr>effects := effects s @ [ShowLoading msg]\<rparr>"

definition hideLoading :: "vortex \<Rightarrow> vortex" where
  "hideLoading s = s\<lparr>effects := effects s @ [HideLoading (isConnected s)]\<rparr>"

definition updateTokenDisplays :: "vortex \<Rightarrow> vortex" where
  "updateTokenDisplays s = s\<lparr>effects := effects s @ [RenderTokens (fromToken s) (toToken s)]\<rparr>"

text \<open>The source text \<^verbatim>\<open>(call ${tokenAddress} (balance ${this.convexClient.address}))\<close>.\<close>

definition callBalanceSource :: "env \<Rightarrow> jsval \<Rightarrow> jsval \<Rightarrow> string" where
  "callBalanceSource env tokenAddress account =
     ''(call '' @ toStr (finiteToString env) tokenAddress @ '' (balance '' @
     toStr (finiteToString env) account @ ''))''"

definition getTokenBalance :: "env \<Rightarrow> string \<Rightarrow> vortex \<Rightarrow> jsval \<times> vortex" where
  "getTokenBalance env tokenSymbol s =
     (case convexClient s of
        None \<Rightarrow> (JNum (Fin 0), s)
      | Some c \<Rightarrow>
          let tokenAddress = tokenAddressOf env s tokenSymbol
          in if \<not> truthy tokenAddress \<or> tokenSymbol = ''CVX'' \<or> tokenSymbol = ''CVM''
             then
               (let (b, lg) = getBalance env c JUndefined (effects s)
                in (b, s\<lparr>effects := lg\<rparr>))
             else
               (let (r, lg) =
                      query env c (callBalanceSource env tokenAddress (address c)) JUndefined
                        (effects s)
                in case r of
                     Inl e \<Rightarrow> (JNum (Fin 0), s\<lparr>effects := lg\<rparr>)
                   | Inr result \<Rightarrow>
                       (case getProp result ''value'' of
                          Inl e \<Rightarrow> (JNum (Fin 0), s\<lparr>effects := lg\<rparr>)
                        | Inr v \<Rightarrow> (js_or v (JNum (Fin 0)), s\<lparr>effects := lg\<rparr>))))"

definition updateBalances :: "env \<Rightarrow> vortex \<Rightarrow> vortex" where
  "updateBalances env s =
     (if \<not> isConnected s \<or> convexClient s = None then s
      else
        let (fromBalance, s1) = getTokenBalance env (fromToken s) s;
            (toBalance, s2) = getTokenBalance env (toToken s1) s1
        in s2\<lparr>effects := effects s2 @
                  [RenderBalances (formatBalance env fromBalance) (formatBalance env toBalance)]\<rparr>)"

text \<open>The literal \<^verbatim>\<open>0.97\<close>: the double nearest to 97/100.\<close>

definition slippage :: jsnum where
  "slippage = round64 (97 / 100)"

text \<open>
  \<^verbatim>\<open>onFromAmountChange(amount)\<close>, with the string of the input event. In the guard,
  \<^verbatim>\<open>!amount\<close> holds of the empty string only, and \<^verbatim>\<open>isNaN(amount)\<close> and \<^verbatim>\<open>amount <= 0\<close>
  convert the string to a number first.
\<close>

definition onFromAmountChange :: "env \<Rightarrow> string \<Rightarrow> vortex \<Rightarrow> vortex" where
  "onFromAmountChange env amount s =
     (if \<not> isConnected s \<or> amount = [] \<or> stringToNumber amount = NaN \<or>
         js_le_zero (stringToNumber amount)
      then
        (if 1 < length (amountInputs s) then s\<lparr>amountInputs := (amountInputs s)[1 := []]\<rparr>
         else s)
      else
        let s1 = s\<lparr>fromAmount := parseFloat amount\<rparr>;
            estimatedOutput = js_mul (fromAmount s1) slippage
        in if 1 < length (amountInputs s1)
           then s1\<lparr>amountInputs :=
                      (amountInputs s1)[1 := toFixed (finiteToString env) 4 estimatedOutput],
                    toAmount := estimatedOutput\<rparr>
           else s1)"

definition swapTokenPositions :: "env \<Rightarrow> vortex \<Rightarrow> vortex" where
  "swapTokenPositions env s =
     (let s1 = s\<lparr>fromToken := toToken s, toToken := fromToken s\<rparr>;
          s2 = updateTokenDisplays s1;
          s3 = s2\<lparr>amountInputs := map (\<lambda>v. []) (amountInputs s2),
                   fromAmount := Fin 0, toAmount := Fin 0\<rparr>
      in if isConnected s3 then updateBalances env s3 else s3)"

text \<open>The two errors that \<^verbatim>\<open>executeSwap\<close> itself throws.\<close>

definition invalidAmountError :: error where
  "invalidAmountError = Thrown GenericError ''Please enter a valid amount''"

definition unsupportedSwapError :: error where
  "unsupportedSwapError =
     Thrown GenericError ''Token-to-token swaps not implemented yet. Please swap through CVX.''"

text \<open>
  \<^verbatim>\<open>executeSwap\<close>, the \<^verbatim>\<open>try\<close> block from the reading of the amount to the end of the
  \<^verbatim>\<open>if\<close> chain: the result of the peer, or the error thrown. Reading \<^verbatim>\<open>.value\<close> on a page
  without amount input, and calling a method on a \<^verbatim>\<open>convexClient\<close> that is \<^verbatim>\<open>null\<close>,
  throw a TypeError.
\<close>

definition swapAttempt :: "env \<Rightarrow> vortex \<Rightarrow> (error + jsval) \<times> vortex" where
  "swapAttempt env s =
     (case amountInputs s of
        [] \<Rightarrow>
          (Inl (Thrown TypeErr
                 (''Cannot read properties of null (reading '' @ [CHR 0x27] @ ''value'' @ [CHR 0x27] @ '')'')),
           s)
      | fromInput # others \<Rightarrow>
          let amount = parseFloat fromInput
          in if num_falsy amount \<or> js_le_zero amount
             then (Inl invalidAmountError, s)
             else if (fromToken s = ''CVX'' \<or> fromToken s = ''CVM'') \<and>
                     toToken s \<noteq> ''CVX'' \<and> toToken s \<noteq> ''CVM''
             then
               (let tokenAddress = tokenAddressOf env s (toToken s)
                in case convexClient s of
                     None \<Rightarrow>
                       (Inl (Thrown TypeErr
                              (''Cannot read properties of null (reading '' @ [CHR 0x27] @
                               ''buyTokens'' @ [CHR 0x27] @ '')'')),
                        s)
                   | Some c \<Rightarrow>
                       (let (r, c', lg) = buyTokens env c tokenAddress (JNum amount) (effects s)
                        in (r, s\<lparr>convexClient := Some c', effects := lg\<rparr>)))
             else if fromToken s \<noteq> ''CVX'' \<and> fromToken s \<noteq> ''CVM'' \<and>
                     (toToken s = ''CVX'' \<or> toToken s = ''CVM'')
             then
               (let tokenAddress = tokenAddressOf env s (fromToken s)
                in case convexClient s of
                     None \<Rightarrow>
                       (Inl (Thrown TypeErr
                              (''Cannot read properties of null (reading '' @ [CHR 0x27] @
                               ''sellTokens'' @ [CHR 0x27] @ '')'')),
                        s)
                   | Some c \<Rightarrow>
                       (let (r, c', lg) = sellTokens env c tokenAddress (JNum amount) (effects s)
                        in (r, s\<lparr>convexClient := Some c', effects := lg\<rparr>)))
             else (Inl unsupportedSwapError, s))"

text \<open>The rest of the \<^verbatim>\<open>try\<close> block, which runs when nothing was thrown.\<close>

definition swapSucceeded :: "env \<Rightarrow> vortex \<Rightarrow> vortex" where
  "swapSucceeded env s =
     (let s1 = showNotification ''Swap completed successfully!'' ''success'' (hideLoading s);
          s2 = s1\<lparr>amountInputs := map (\<lambda>v. []) (amountInputs s1),
                   fromAmount := Fin 0, toAmount := Fin 0\<rparr>
      in updateBalances env s2)"

text \<open>The \<^verbatim>\<open>catch\<close> block.\<close>

definition swapFailed :: "error \<Rightarrow> vortex \<Rightarrow> vortex" where
  "swapFailed e s = showNotification (''Swap failed: '' @ message e) ''error'' (hideLoading s)"

definition executeSwap :: "env \<Rightarrow> vortex \<Rightarrow> vortex" where
  "executeSwap env s =
     (if \<not> isConnected s then showNotification ''Please connect your wallet first'' ''error'' s
      else if isSwapping s then s
      else
        let s1 = showLoading ''Executing swap...'' (s\<lparr>isSwapping := True\<rparr>);
            (r, s2) = swapAttempt env s1;
            s3 = (case r of Inr result \<Rightarrow> swapSucceeded env s2 | Inl e \<Rightarrow> swapFailed e s2)
        in s3\<lparr>isSwapping := False\<rparr>)"

text \<open>
  An \<^verbatim>\<open>async\<close> method runs without interruption up to the first \<^verbatim>\<open>await\<close> of something
  that is not there yet; then the other handlers of the page get their turn. In
  \<^verbatim>\<open>executeSwap\<close> that point is the \<^verbatim>\<open>fetch\<close> inside \<^verbatim>\<open>transact\<close>, reached through
  \<^verbatim>\<open>buyTokens\<close> or \<^verbatim>\<open>sellTokens\<close>: every \<^verbatim>\<open>throw\<close> before it goes to the \<^verbatim>\<open>catch\<close> and
  \<^verbatim>\<open>finally\<close> blocks at once. The three definitions that follow are \<^verbatim>\<open>transact\<close>, the
  \<^verbatim>\<open>try\<close> block and \<^verbatim>\<open>executeSwap\<close> up to that point: the error thrown, or the request
  that has been sent and whose answer is awaited.
\<close>

definition transactStart :: "client \<Rightarrow> string \<Rightarrow> error + request" where
  "transactStart c source =
     (if \<not> isConnected_client c then Inl (Thrown GenericError ''Not connected to Convex network'')
      else if \<not> truthy (address c)
      then Inl (Thrown GenericError ''No address set for transaction'')
      else Inr (transactRequest c source))"

definition swapAttemptStart :: "env \<Rightarrow> vortex \<Rightarrow> error + request" where
  "swapAttemptStart env s =
     (case amountInputs s of
        [] \<Rightarrow>
          Inl (Thrown TypeErr
                (''Cannot read properties of null (reading '' @ [CHR 0x27] @ ''value'' @ [CHR 0x27] @ '')''))
      | fromInput # others \<Rightarrow>
          let amount = parseFloat fromInput
          in if num_falsy amount \<or> js_le_zero amount then Inl invalidAmountError
             else if (fromToken s = ''CVX'' \<or> fromToken s = ''CVM'') \<and>
                     toToken s \<noteq> ''CVX'' \<and> toToken s \<noteq> ''CVM''
             then
               (let tokenAddress = tokenAddressOf env s (toToken s)
                in case convexClient s of
                     None \<Rightarrow>
                       Inl (Thrown TypeErr
                             (''Cannot read properties of null (reading '' @ [CHR 0x27] @
                              ''buyTokens'' @ [CHR 0x27] @ '')''))
                   | Some c \<Rightarrow> transactStart c (buySource env tokenAddress (JNum amount)))
             else if fromToken s \<noteq> ''CVX'' \<and> fromToken s \<noteq> ''CVM'' \<and>
                     (toToken s = ''CVX'' \<or> toToken s = ''CVM'')
             then
               (let tokenAddress = tokenAddressOf env s (fromToken s)
                in case convexClient s of
                     None \<Rightarrow>
                       Inl (Thrown TypeErr
                             (''Cannot read properties of null (reading '' @ [CHR 0x27] @
                              ''sellTokens'' @ [CHR 0x27] @ '')''))
                   | Some c \<Rightarrow> transactStart c (sellSource env tokenAddress (JNum amount)))
             else Inl unsupportedSwapError)"

text \<open>
  The state in which \<^verbatim>\<open>executeSwap\<close> hands over, and the request it waits for, if it has
  sent one; without a request the run is over.
\<close>

definition executeSwapStart :: "env \<Rightarrow> vortex \<Rightarrow> vortex \<times> request option" where
  "executeSwapStart env s =
     (if \<not> isConnected s
      then (showNotification ''Please connect your wallet first'' ''error'' s, None)
      else if isSwapping s then (s, None)
      else
        let s1 = showLoading ''Executing swap...'' (s\<lparr>isSwapping := True\<rparr>)
        in case swapAttemptStart env s1 of
             Inl e \<Rightarrow> ((swapFailed e s1)\<lparr>isSwapping := False\<rparr>, None)
           | Inr req \<Rightarrow> (s1\<lparr>effects := effects s1 @ [Fetch req]\<rparr>, Some req))"




section \<open>Sample data\<close>

text \<open>
  A client as \<^verbatim>\<open>createDemoAccount\<close> leaves it after its fallback, a page that is connected
  through it, and a few peers, for the concrete instances below.
\<close>

definition demoClient :: client where
  "demoClient =
     \<lparr> peerUrl = ''http://peer.convex.live:8080'', address = JStr ''#12'',
       keyPair = JStr ''demo'', sequence = 0, isConnected_client = True, timeout = 30000 \<rparr>"

definition envOf :: "(request list \<Rightarrow> request \<Rightarrow> fetch_outcome) \<Rightarrow> env" where
  "envOf p =
     \<lparr> peer = p, finiteToString = (\<lambda>r. []), toLocaleString = toStr (\<lambda>r. []),
       nativeSource = (\<lambda>name. ''function '' @ name @ ''() { [native code] }'') \<rparr>"

definition peerValue :: "jsval \<Rightarrow> request list \<Rightarrow> request \<Rightarrow> fetch_outcome" where
  "peerValue v history req = Response 200 ''OK'' (Json (JObj [(''value'', v)]))"

definition connectedPage :: "string list \<Rightarrow> vortex" where
  "connectedPage inputs =
     (constructor inputs)\<lparr>convexClient := Some demoClient, isConnected := True\<rparr>"

text \<open>A peer that answers with an error code, and one that sends the field as \<^verbatim>\<open>null\<close>.\<close>

definition peerError :: "string \<Rightarrow> request list \<Rightarrow> request \<Rightarrow> fetch_outcome" where
  "peerError code history req = Response 200 ''OK'' (Json (JObj [(''errorCode'', JStr code)]))"

definition peerNullError :: "request list \<Rightarrow> request \<Rightarrow> fetch_outcome" where
  "peerNullError history req =
     Response 200 ''OK'' (Json (JObj [(''value'', JNum (Fin 42)), (''errorCode'', JNull)]))"

section \<open>Notions for the properties\<close>

text \<open>
  The outcomes of a \<^verbatim>\<open>fetch\<close> on which \<^verbatim>\<open>query\<close> and \<^verbatim>\<open>transact\<close> throw: no response,
  a status outside 200 to 299, a body that is not JSON or is \<^verbatim>\<open>null\<close>, and a body whose
  \<^verbatim>\<open>errorCode\<close> is truthy.
\<close>

fun failureOutcome :: "fetch_outcome \<Rightarrow> bool" where
  "failureOutcome (Rejected e) = True"
| "failureOutcome (Response status statusText (BadJson e)) = True"
| "failureOutcome (Response status statusText (Json result)) =
     (\<not> ok status \<or>
      (case getProp result ''errorCode'' of Inl e \<Rightarrow> True | Inr errorCode \<Rightarrow> truthy errorCode))"

text \<open>
  The source text of the transaction that \<^verbatim>\<open>executeSwap\<close> sends from a state, if it gets
  to send one: a purchase from CVX or CVM into another symbol, a sale the other way round.
\<close>

definition swapSource :: "env \<Rightarrow> vortex \<Rightarrow> string option" where
  "swapSource env s =
     (case amountInputs s of
        [] \<Rightarrow> None
      | fromInput # others \<Rightarrow>
          if num_falsy (parseFloat fromInput) \<or> js_le_zero (parseFloat fromInput) then None
          else if (fromToken s = ''CVX'' \<or> fromToken s = ''CVM'') \<and>
                  toToken s \<noteq> ''CVX'' \<and> toToken s \<noteq> ''CVM''
          then Some (buySource env (tokenAddressOf env s (toToken s)) (JNum (parseFloat fromInput)))
          else if fromToken s \<noteq> ''CVX'' \<and> fromToken s \<noteq> ''CVM'' \<and>
                  (toToken s = ''CVX'' \<or> toToken s = ''CVM'')
          then Some (sellSource env (tokenAddressOf env s (fromToken s)) (JNum (parseFloat fromInput)))
          else None)"

text \<open>
  Whether the first amount input holds an amount that \<^verbatim>\<open>executeSwap\<close> accepts: it parses to
  a number that is neither not-a-number nor zero nor negative.
\<close>

definition amountEntered :: "vortex \<Rightarrow> bool" where
  "amountEntered s =
     (case amountInputs s of
        [] \<Rightarrow> False
      | fromInput # others \<Rightarrow>
          \<not> num_falsy (parseFloat fromInput) \<and> \<not> js_le_zero (parseFloat fromInput))"

text \<open>The notification of the \<^verbatim>\<open>catch\<close> block of \<^verbatim>\<open>executeSwap\<close>.\<close>

definition swapFailureNotice :: "error \<Rightarrow> effect" where
  "swapFailureNotice e = Notify (icon ''error'' @ '' Swap failed: '' @ message e)"

text \<open>The requests that go to the \<^verbatim>\<open>transact\<close> endpoint, among the effects.\<close>

definition isTransactRequest :: "request \<Rightarrow> bool" where
  "isTransactRequest r =
     (drop (length (url r) - length ''/api/v1/transact'') (url r) = ''/api/v1/transact'')"

definition transactRequests :: "effect list \<Rightarrow> request list" where
  "transactRequests lg = filter isTransactRequest (requests lg)"



text \<open>A string that ends in a point and four digits.\<close>

definition hasFourDecimals :: "string \<Rightarrow> bool" where
  "hasFourDecimals str =
     (5 \<le> length str \<and> str ! (length str - 5) = CHR ''.'' \<and>
      list_all isDigit (drop (length str - 4) str))"


section \<open>Properties\<close>

subsection \<open>What the balance refresh leaves alone\<close>

lemma getTokenBalance_frame:
  "\<exists>l. snd (getTokenBalance env symb s) = s\<lparr>effects := l\<rparr>"
proof (cases "convexClient s")
  case None
  have "s = s\<lparr>effects := effects s\<rparr>" by simp
  with None show ?thesis by (auto simp add: getTokenBalance_def intro: exI [of _ "effects s"])
next
  case (Some c)
  then show ?thesis
    by (auto simp add: getTokenBalance_def Let_def split: prod.splits sum.splits)
qed

lemma updateBalances_frame:
  "\<exists>l. updateBalances env s = s\<lparr>effects := l\<rparr>"
proof (cases "\<not> isConnected s \<or> convexClient s = None")
  case True
  have "s = s\<lparr>effects := effects s\<rparr>" by simp
  with True show ?thesis unfolding updateBalances_def by (metis (full_types))
next
  case False
  obtain b1 s1 where g1: "getTokenBalance env (fromToken s) s = (b1, s1)"
    by (cases "getTokenBalance env (fromToken s) s")
  obtain b2 s2 where g2: "getTokenBalance env (toToken s1) s1 = (b2, s2)"
    by (cases "getTokenBalance env (toToken s1) s1")
  obtain l1 where f1: "s1 = s\<lparr>effects := l1\<rparr>"
    using getTokenBalance_frame [of env "fromToken s" s] g1 by auto
  obtain l2 where f2: "s2 = s1\<lparr>effects := l2\<rparr>"
    using getTokenBalance_frame [of env "toToken s1" s1] g2 by auto
  from False g1 g2 have "updateBalances env s =
      s2\<lparr>effects := effects s2 @ [RenderBalances (formatBalance env b1) (formatBalance env b2)]\<rparr>"
    by (auto simp add: updateBalances_def)
  also have "\<dots> = s\<lparr>effects := l2 @ [RenderBalances (formatBalance env b1) (formatBalance env b2)]\<rparr>"
    by (simp add: f1 f2)
  finally show ?thesis by blast
qed

subsection \<open>Exchanging the two tokens\<close>

lemma swapTokenPositions_once:
  "fromToken (swapTokenPositions env s) = toToken s \<and>
   toToken (swapTokenPositions env s) = fromToken s \<and>
   fromAmount (swapTokenPositions env s) = Fin 0 \<and>
   toAmount (swapTokenPositions env s) = Fin 0 \<and>
   amountInputs (swapTokenPositions env s) = map (\<lambda>v. []) (amountInputs s)"
proof -
  define s3 where "s3 = (updateTokenDisplays (s\<lparr>fromToken := toToken s, toToken := fromToken s\<rparr>))
      \<lparr>amountInputs := map (\<lambda>v. []) (amountInputs s), fromAmount := Fin 0, toAmount := Fin 0\<rparr>"
  obtain l where u: "updateBalances env s3 = s3\<lparr>effects := l\<rparr>"
    using updateBalances_frame [of env s3] by blast
  have "swapTokenPositions env s = (if isConnected s then updateBalances env s3 else s3)"
    by (simp add: swapTokenPositions_def Let_def s3_def updateTokenDisplays_def)
  then show ?thesis
    by (simp add: u) (simp add: s3_def updateTokenDisplays_def)
qed

text \<open>
  C8. \<^verbatim>\<open>swapTokenPositions\<close> is its own inverse on the pair of tokens: from every state,
  two applications (whatever the peer answers to the balance queries in between) give back
  \<^verbatim>\<open>fromToken\<close> and \<^verbatim>\<open>toToken\<close>, and after each application \<^verbatim>\<open>fromAmount\<close> and
  \<^verbatim>\<open>toAmount\<close> are 0.
\<close>

theorem swapTokenPositions_involution:
  "fromToken (swapTokenPositions env' (swapTokenPositions env s)) = fromToken s \<and>
   toToken (swapTokenPositions env' (swapTokenPositions env s)) = toToken s \<and>
   fromAmount (swapTokenPositions env s) = Fin 0 \<and>
   toAmount (swapTokenPositions env s) = Fin 0 \<and>
   fromAmount (swapTokenPositions env' (swapTokenPositions env s)) = Fin 0 \<and>
   toAmount (swapTokenPositions env' (swapTokenPositions env s)) = Fin 0"
  using swapTokenPositions_once [of env s]
    swapTokenPositions_once [of env' "swapTokenPositions env s"]
  by simp

theorem swapTokenPositions_involution_witness:
  "fromToken (swapTokenPositions (envOf (peerValue (JNum (Fin 7))))
      (swapTokenPositions (envOf (peerValue (JNum (Fin 7))))
         (connectedPage [''5'', ''4.8500'']))) = ''CVX'' \<and>
   toToken (swapTokenPositions (envOf (peerValue (JNum (Fin 7))))
      (swapTokenPositions (envOf (peerValue (JNum (Fin 7))))
         (connectedPage [''5'', ''4.8500'']))) = ''PAI'' \<and>
   fromToken (swapTokenPositions (envOf (peerValue (JNum (Fin 7))))
      (connectedPage [''5'', ''4.8500''])) = ''PAI''"
  using swapTokenPositions_involution [of "envOf (peerValue (JNum (Fin 7)))"
      "envOf (peerValue (JNum (Fin 7)))" "connectedPage [''5'', ''4.8500'']"]
    swapTokenPositions_once [of "envOf (peerValue (JNum (Fin 7)))"
      "connectedPage [''5'', ''4.8500'']"]
  by (simp add: connectedPage_def constructor_def)

subsection \<open>The binary exponent\<close>

text \<open>
  The exponent that the rounding uses is the right one: a positive rational lies between
  the power of two it names and the next.
\<close>

lemma bitlen_pos: "0 < n \<Longrightarrow> 0 < bitlen n"
  by (subst bitlen.simps) simp

lemma bitlen_bounds: "0 < n \<Longrightarrow> 2 ^ (bitlen n - 1) \<le> n \<and> n < 2 ^ bitlen n"
proof (induction n rule: bitlen.induct)
  case (1 n)
  show ?case
  proof (cases "n div 2 = 0")
    case True
    with 1(2) have "n = 1" by (auto simp add: div_eq_0_iff)
    then show ?thesis by (simp add: bitlen.simps)
  next
    case False
    then have pos: "0 < n div 2" by simp
    from 1(1) [OF _ pos] 1(2)
    have ih: "2 ^ (bitlen (n div 2) - 1) \<le> n div 2 \<and> n div 2 < 2 ^ bitlen (n div 2)" by simp
    have b: "bitlen n = Suc (bitlen (n div 2))" using 1(2) by (subst bitlen.simps) simp
    have "(2::nat) ^ bitlen (n div 2) = 2 * 2 ^ (bitlen (n div 2) - 1)"
      using bitlen_pos [OF pos] by (cases "bitlen (n div 2)") simp_all
    with ih show ?thesis unfolding b by (simp; arith)
  qed
qed

lemma floor_log2_bounds:
  assumes "0 < x"
  shows "pow2 (floor_log2 x) \<le> x \<and> x < pow2 (floor_log2 x + 1)"
proof (cases "1 \<le> x")
  case True
  define n where "n = nat \<lfloor>x\<rfloor>"
  have fl: "1 \<le> \<lfloor>x\<rfloor>" using True by (simp add: le_floor_iff)
  then have n0: "0 < n" by (simp add: n_def)
  have nx: "of_nat n \<le> x" using fl by (simp add: n_def)
  have xn: "x < of_nat n + 1" using fl by (simp add: n_def) linarith
  from bitlen_bounds [OF n0] have b: "2 ^ (bitlen n - 1) \<le> n" "n < 2 ^ bitlen n" by simp_all
  have e: "floor_log2 x = int (bitlen n) - 1" using True by (simp add: floor_log2_def n_def)
  have p1: "pow2 (floor_log2 x) = 2 ^ (bitlen n - 1)"
    using bitlen_pos [OF n0] by (simp add: e pow2_def nat_diff_distrib')
  have p2: "pow2 (floor_log2 x + 1) = 2 ^ bitlen n" by (simp add: e pow2_def)
  have "(of_nat (2 ^ (bitlen n - 1)) :: rat) \<le> of_nat n" using b(1) by (simp only: of_nat_le_iff)
  then have l: "(2::rat) ^ (bitlen n - 1) \<le> of_nat n" by simp
  have "(of_nat (Suc n) :: rat) \<le> of_nat (2 ^ bitlen n)"
    using b(2) by (simp only: of_nat_le_iff Suc_le_eq)
  then have u: "of_nat n + 1 \<le> (2::rat) ^ bitlen n" by simp
  from l u nx xn show ?thesis unfolding p1 p2 by linarith
next
  case False
  define c where "c = nat \<lceil>1 / x\<rceil>"
  define k where "k = bitlen (c - 1)"
  from False assms have inv: "1 < 1 / x" by simp
  then have ce: "(2::int) \<le> \<lceil>1 / x\<rceil>" by (simp add: le_ceiling_iff)
  then have c2: "2 \<le> c" unfolding c_def by arith
  have "0 \<le> \<lceil>1 / x\<rceil>" using ce by arith
  then have cc: "(of_nat c :: rat) = of_int \<lceil>1 / x\<rceil>" unfolding c_def by simp
  have cx: "1 / x \<le> of_nat c" unfolding cc by (rule le_of_int_ceiling)
  have xc: "of_nat (c - 1) < 1 / x"
  proof -
    have "of_int (\<lceil>1 / x\<rceil> - 1) < 1 / x" using ceiling_correct [of "1 / x"] by simp
    moreover have "int (c - 1) = \<lceil>1 / x\<rceil> - 1" using ce unfolding c_def by arith
    ultimately show ?thesis by (metis of_int_of_nat_eq)
  qed
  have c0: "0 < c - 1" using c2 by simp
  from bitlen_bounds [OF c0] have b: "2 ^ (k - 1) \<le> c - 1" "c - 1 < 2 ^ k"
    by (simp_all add: k_def)
  have k0: "0 < k" using bitlen_pos [OF c0] by (simp add: k_def)
  have e: "floor_log2 x = - int k" using False by (simp add: floor_log2_def k_def c_def)
  have p1: "pow2 (floor_log2 x) = 1 / 2 ^ k" using k0 by (simp add: e pow2_def)
  have p2: "pow2 (floor_log2 x + 1) = 1 / 2 ^ (k - 1)"
    using k0 by (cases k) (simp_all add: e pow2_def)
  have "c \<le> 2 ^ k" using b(2) c2 by arith
  then have "(of_nat c :: rat) \<le> of_nat (2 ^ k)" by (simp only: of_nat_le_iff)
  then have "(of_nat c :: rat) \<le> 2 ^ k" by (simp only: of_nat_power of_nat_numeral)
  with cx have "1 / x \<le> 2 ^ k" by (rule order_trans)
  then have l: "1 / 2 ^ k \<le> x" using assms by (simp add: field_simps)
  have "(of_nat (2 ^ (k - 1)) :: rat) \<le> of_nat (c - 1)" using b(1) by (simp only: of_nat_le_iff)
  then have "(2::rat) ^ (k - 1) \<le> of_nat (c - 1)" by (simp only: of_nat_power of_nat_numeral)
  then have "2 ^ (k - 1) < 1 / x" using xc by (rule le_less_trans)
  then have u: "x < 1 / 2 ^ (k - 1)" using assms by (simp add: field_simps)
  from l u show ?thesis unfolding p1 p2 by simp
qed

subsection \<open>Evaluating the number functions\<close>

lemma bitlen_0: "bitlen 0 = 0" by (simp add: bitlen.simps)
lemma bitlen_1: "bitlen 1 = 1" by (simp add: bitlen.simps)
lemma bitlen_Suc0: "bitlen (Suc 0) = 1" by (simp add: bitlen.simps)
lemma bitlen_num: "bitlen (numeral n) = Suc (bitlen (numeral n div 2))"
  by (subst bitlen.simps) simp
lemmas bitlen_eval = bitlen_0 bitlen_1 bitlen_Suc0 bitlen_num

lemma floor_rat_numeral: "\<lfloor>numeral a / numeral b :: rat\<rfloor> = numeral a div numeral b"
  using floor_divide_of_int_eq [of "numeral a" "numeral b", where ?'a = rat] by simp
lemma floor_rat_one: "\<lfloor>1 / numeral b :: rat\<rfloor> = 1 div numeral b"
  using floor_divide_of_int_eq [of 1 "numeral b", where ?'a = rat] by simp
lemma ceiling_rat_numeral: "\<lceil>numeral a / numeral b :: rat\<rceil> = - (- numeral a div numeral b)"
  using floor_divide_of_int_eq [of "- numeral a" "numeral b", where ?'a = rat]
  by (simp add: ceiling_def)
lemma ceiling_rat_one: "\<lceil>1 / numeral b :: rat\<rceil> = - (- 1 div numeral b)"
  using floor_divide_of_int_eq [of "- 1" "numeral b", where ?'a = rat]
  by (simp add: ceiling_def)
lemmas rat_eval = floor_rat_numeral floor_rat_one ceiling_rat_numeral ceiling_rat_one

lemma round64_pos:
  assumes "0 < x" and "max (floor_log2 x) (- 1022) = e"
    and "round_half_even (x / pow2 (e - 52)) = n"
    and "of_int n * pow2 (e - 52) = v" and "v < pow2 1024"
  shows "round64 x = Fin v"
  using assms by (simp add: round64_def Let_def)

lemma round64_neg:
  assumes "x < 0" and "max (floor_log2 (- x)) (- 1022) = e"
    and "round_half_even (- x / pow2 (e - 52)) = n"
    and "of_int n * pow2 (e - 52) = v" and "v < pow2 1024"
  shows "round64 x = Fin (- v)"
  using assms by (simp add: round64_def Let_def abs_if)

lemmas round_eval = floor_log2_def bitlen_eval round_half_even_def pow2_def Let_def rat_eval

lemmas parse_eval = parseFloat_def stringToNumber_def trim_def trimStart.simps trimEnd.simps
  whiteAtStart_def whiteAtEnd_def whiteSpaces_def
  parseDecimal_def parseUnsignedDecimal_def withExponent_def parseExponent_def
  parseNonDecimal_def baseDigits_def hexVal_def isDigit_def digitVal_def digitsVal_def
  pow10_def Let_def

lemma round64_0: "round64 0 = Fin 0" by (simp add: round64_def)
lemma round64_5: "round64 5 = Fin 5"
  by (rule round64_pos [where e = 2 and n = "5 * 2 ^ 50"]) (simp_all add: round_eval)
lemma round64_16: "round64 16 = Fin 16"
  by (rule round64_pos [where e = 4 and n = "2 ^ 52"]) (simp_all add: round_eval)
lemma round64_100: "round64 100 = Fin 100"
  by (rule round64_pos [where e = 6 and n = "100 * 2 ^ 46"]) (simp_all add: round_eval)
lemma round64_m5: "round64 (- 5) = Fin (- 5)"
  using round64_neg [where x = "- 5" and e = 2 and n = "5 * 2 ^ 50" and v = 5]
  by (simp add: round_eval)
lemma slippage_value: "slippage = Fin (4368491638549381 / 4503599627370496)"
  unfolding slippage_def
  by (rule round64_pos [where e = "- 1" and n = 8736983277098762]) (simp_all add: round_eval)

lemma parseFloat_100: "parseFloat ''100'' = Fin 100" by (simp add: parse_eval round64_100)
lemma parseFloat_5: "parseFloat ''5'' = Fin 5" by (simp add: parse_eval round64_5)
lemma parseFloat_empty: "parseFloat [] = NaN" by (simp add: parse_eval)
lemma parseFloat_hex: "parseFloat ''0x10'' = Fin 0" by (simp add: parse_eval round64_0)
lemma stringToNumber_100: "stringToNumber ''100'' = Fin 100" by (simp add: parse_eval round64_100)
lemma stringToNumber_hex: "stringToNumber ''0x10'' = Fin 16" by (simp add: parse_eval round64_16)
lemma stringToNumber_abc: "stringToNumber ''abc'' = NaN" by (simp add: parse_eval)
lemma stringToNumber_0: "stringToNumber ''0'' = Fin 0" by (simp add: parse_eval round64_0)
lemma stringToNumber_m5: "stringToNumber ''-5'' = Fin (- 5)" by (simp add: parse_eval round64_m5)

text \<open>
  White space outside ASCII is stripped like a blank: a no-break space (U+00A0) in front
  of the digits, an ideographic space (U+3000) in front and blanks behind.
\<close>

lemma stringToNumber_nbsp: "stringToNumber [CHR 0xC2, CHR 0xA0] = Fin 0"
  by (simp add: parse_eval)
lemma stringToNumber_nbsp_100: "stringToNumber (CHR 0xC2 # CHR 0xA0 # ''100'') = Fin 100"
  by (simp add: parse_eval round64_100)
lemma parseFloat_nbsp_100: "parseFloat (CHR 0xC2 # CHR 0xA0 # ''100'') = Fin 100"
  by (simp add: parse_eval round64_100)
lemma stringToNumber_wide: "stringToNumber (CHR 0xE3 # CHR 0x80 # CHR 0x80 # ''100  '') = Fin 100"
  by (simp add: parse_eval round64_100)

lemma showNat_eval:
  "showNat (numeral k) =
     (if (numeral k :: nat) < 10 then [digitChar (numeral k)]
      else showNat (numeral k div 10) @ [digitChar (numeral k mod 10)])"
  by (subst showNat.simps) simp
lemma showNat_0: "showNat 0 = ''0''" by (simp add: showNat.simps digitChar_def)
lemma showNat_1: "showNat 1 = ''1''" by (simp add: showNat.simps digitChar_def)
lemma showNat_Suc0: "showNat (Suc 0) = ''1''" by (simp add: showNat.simps digitChar_def)
lemmas show_eval = showNat_eval showNat_0 showNat_1 showNat_Suc0 digitChar_def

lemma toFixed_97: "toFixed fts 4 (Fin 97) = ''97.0000''"
  by (simp add: toFixed_def Let_def show_eval rat_eval)
lemma toFixed_0: "toFixed fts 4 (Fin 0) = ''0.0000''"
  by (simp add: toFixed_def Let_def show_eval rat_eval eval_nat_numeral)

subsection \<open>Requests among the effects\<close>

lemma requests_append: "requests (xs @ ys) = requests xs @ requests ys"
  by (induction xs rule: requests.induct) simp_all

subsection \<open>Input that is not an amount\<close>

text \<open>
  C7. When the input is empty, is not numeric (its conversion to a number is not-a-number),
  or is zero or negative, \<^verbatim>\<open>onFromAmountChange\<close> clears the output field, the second amount
  input of the page, and changes nothing else: \<^verbatim>\<open>fromAmount\<close> and \<^verbatim>\<open>toAmount\<close> keep their
  values. (On a page with fewer than two amount inputs there is no output field, and the
  update of position 1 leaves the list as it is.) The conversion is that of the language:
  an input of white space only, ASCII or not, converts to zero and is refused as such.
\<close>

theorem onFromAmountChange_invalid:
  assumes "amount = [] \<or> stringToNumber amount = NaN \<or> js_le_zero (stringToNumber amount)"
  shows "onFromAmountChange env amount s = s\<lparr>amountInputs := (amountInputs s)[1 := []]\<rparr> \<and>
         fromAmount (onFromAmountChange env amount s) = fromAmount s \<and>
         toAmount (onFromAmountChange env amount s) = toAmount s"
proof -
  have "s\<lparr>amountInputs := (amountInputs s)[1 := []]\<rparr> = s" if "\<not> 1 < length (amountInputs s)"
  proof -
    from that have "(amountInputs s)[1 := []] = amountInputs s"
      by (intro list_update_beyond) simp
    then show ?thesis by simp
  qed
  with assms show ?thesis by (auto simp add: onFromAmountChange_def)
qed

theorem onFromAmountChange_invalid_witness:
  "(stringToNumber ''abc'' = NaN \<and>
    amountInputs (onFromAmountChange (envOf (peerValue JNull)) ''abc''
       (connectedPage [''abc'', ''12.0000''])) = [''abc'', []]) \<and>
   amountInputs (onFromAmountChange (envOf (peerValue JNull)) []
       (connectedPage [[], ''12.0000''])) = [[], []] \<and>
   (js_le_zero (stringToNumber ''0'') \<and>
    amountInputs (onFromAmountChange (envOf (peerValue JNull)) ''0''
       (connectedPage [''0'', ''12.0000''])) = [''0'', []]) \<and>
   (js_le_zero (stringToNumber ''-5'') \<and>
    amountInputs (onFromAmountChange (envOf (peerValue JNull)) ''-5''
       (connectedPage [''-5'', ''12.0000''])) = [''-5'', []] \<and>
    toAmount (onFromAmountChange (envOf (peerValue JNull)) ''-5''
       ((connectedPage [''-5'', ''12.0000''])\<lparr>toAmount := Fin 12\<rparr>)) = Fin 12) \<and>
   (js_le_zero (stringToNumber [CHR 0xC2, CHR 0xA0]) \<and>
    amountInputs (onFromAmountChange (envOf (peerValue JNull)) [CHR 0xC2, CHR 0xA0]
       (connectedPage [[CHR 0xC2, CHR 0xA0], ''12.0000''])) = [[CHR 0xC2, CHR 0xA0], []])"
  using onFromAmountChange_invalid [of "''abc''" "envOf (peerValue JNull)"
      "connectedPage [''abc'', ''12.0000'']"]
    onFromAmountChange_invalid [of "[]" "envOf (peerValue JNull)"
      "connectedPage [[], ''12.0000'']"]
    onFromAmountChange_invalid [of "''0''" "envOf (peerValue JNull)"
      "connectedPage [''0'', ''12.0000'']"]
    onFromAmountChange_invalid [of "''-5''" "envOf (peerValue JNull)"
      "connectedPage [''-5'', ''12.0000'']"]
    onFromAmountChange_invalid [of "''-5''" "envOf (peerValue JNull)"
      "(connectedPage [''-5'', ''12.0000''])\<lparr>toAmount := Fin 12\<rparr>"]
    onFromAmountChange_invalid [of "[CHR 0xC2, CHR 0xA0]" "envOf (peerValue JNull)"
      "connectedPage [[CHR 0xC2, CHR 0xA0], ''12.0000'']"]
  by (simp add: stringToNumber_abc stringToNumber_0 stringToNumber_m5 stringToNumber_nbsp
      connectedPage_def constructor_def)

subsection \<open>Failures of a query\<close>

lemma queryResult_fails_iff: "isl (queryResult env out) = failureOutcome out"
  by (cases out rule: failureOutcome.cases)
     (auto simp add: queryResult_def getProp_def split: sum.splits jsval.splits)

lemma transactResult_fails_iff: "isl (transactResult env out) = failureOutcome out"
  by (cases out rule: failureOutcome.cases)
     (auto simp add: transactResult_def getProp_def split: sum.splits jsval.splits)

lemma query_fails_iff:
  "isl (fst (query env c source a lg)) =
     failureOutcome
       (peer env (requests lg) (queryRequest c (if a = JUndefined then address c else a) source))"
  by (simp add: query_def fetch_def Let_def queryResult_fails_iff)

lemma query_effects:
  "snd (query env c source a lg) =
     lg @ [Fetch (queryRequest c (if a = JUndefined then address c else a) source)]"
  by (simp add: query_def fetch_def Let_def)

text \<open>
  C5. For every address, when the query that \<^verbatim>\<open>getBalance\<close> sends fails (the \<^verbatim>\<open>fetch\<close> is
  rejected, the status is not 2xx, the body is not usable JSON, or the peer reports an error
  code) the query throws, and \<^verbatim>\<open>getBalance\<close> returns the number 0 after that one request.
  Its result is a value: it has no error to hand to its caller.
\<close>

theorem getBalance_zero_on_failure:
  assumes "failureOutcome
             (peer env (requests lg)
                (queryRequest c (address c)
                   (balanceSource env (if a = JUndefined then address c else a))))"
  shows "isl (fst (query env c
             (balanceSource env (if a = JUndefined then address c else a)) JUndefined lg)) \<and>
         getBalance env c a lg =
           (JNum (Fin 0),
            lg @ [Fetch (queryRequest c (address c)
                    (balanceSource env (if a = JUndefined then address c else a)))])"
proof -
  let ?src = "balanceSource env (if a = JUndefined then address c else a)"
  obtain r lg' where q: "query env c ?src JUndefined lg = (r, lg')"
    by (cases "query env c ?src JUndefined lg")
  from assms have f: "isl (fst (query env c ?src JUndefined lg))"
    by (simp add: query_fails_iff)
  with q obtain e where r: "r = Inl e" by (cases r) simp_all
  from q have "lg' = lg @ [Fetch (queryRequest c (address c) ?src)]"
    using query_effects [of env c ?src JUndefined lg] by simp
  with q r f show ?thesis by (simp add: getBalance_def Let_def)
qed

theorem getBalance_zero_on_failure_witness:
  "failureOutcome (Response 200 ''OK'' (Json (JObj [(''errorCode'', JStr ''NOBODY'')]))) \<and>
   getBalance (envOf (peerError ''NOBODY'')) demoClient (JStr ''#99'') [] =
     (JNum (Fin 0),
      [Fetch (Post ''http://peer.convex.live:8080/api/v1/query''
                (JObj [(''address'', JStr ''#12''), (''source'', JStr ''(balance #99)'')]))])"
proof -
  have h: "failureOutcome
             (peer (envOf (peerError ''NOBODY'')) (requests [])
                (queryRequest demoClient (address demoClient)
                   (balanceSource (envOf (peerError ''NOBODY''))
                      (if JStr ''#99'' = JUndefined then address demoClient else JStr ''#99''))))"
    by (simp add: peerError_def envOf_def ok_def getProp_def)
  from getBalance_zero_on_failure [OF h] h show ?thesis
    by (simp add: balanceSource_def envOf_def queryRequest_def demoClient_def peerError_def)
qed

subsection \<open>Which balance query is sent\<close>

lemma getBalance_effects:
  "snd (getBalance env c a lg) =
     lg @ [Fetch (queryRequest c (address c)
             (balanceSource env (if a = JUndefined then address c else a)))]"
proof -
  let ?src = "balanceSource env (if a = JUndefined then address c else a)"
  obtain r lg' where q: "query env c ?src JUndefined lg = (r, lg')"
    by (cases "query env c ?src JUndefined lg")
  then have "lg' = lg @ [Fetch (queryRequest c (address c) ?src)]"
    using query_effects [of env c ?src JUndefined lg] by simp
  with q show ?thesis by (simp add: getBalance_def Let_def split: sum.splits)
qed

lemma getTokenBalance_native:
  assumes "convexClient s = Some c"
    and "\<not> truthy (tokenAddressOf env s symb) \<or> symb = ''CVX'' \<or> symb = ''CVM''"
  shows "effects (snd (getTokenBalance env symb s)) =
           effects s @ [Fetch (queryRequest c (address c) (balanceSource env (address c)))]"
  using assms getBalance_effects [of env c JUndefined "effects s"]
  by (auto simp add: getTokenBalance_def Let_def split: prod.splits)

lemma getTokenBalance_contract:
  assumes "convexClient s = Some c"
    and "truthy (tokenAddressOf env s symb) \<and> symb \<noteq> ''CVX'' \<and> symb \<noteq> ''CVM''"
  shows "effects (snd (getTokenBalance env symb s)) =
           effects s @
           [Fetch (queryRequest c (address c)
              (callBalanceSource env (tokenAddressOf env s symb) (address c)))]"
  using assms
    query_effects [of env c "callBalanceSource env (tokenAddressOf env s symb) (address c)"
      JUndefined "effects s"]
  by (auto simp add: getTokenBalance_def Let_def split: prod.splits sum.splits)

lemma getTokenBalance_no_client:
  "convexClient s = None \<Longrightarrow> effects (snd (getTokenBalance env symb s)) = effects s"
  by (simp add: getTokenBalance_def)




subsection \<open>The steps of a swap\<close>

lemma transact_cases:
  "transact env c source lg =
     (if \<not> isConnected_client c
      then (Inl (Thrown GenericError ''Not connected to Convex network''), c, lg)
      else if \<not> truthy (address c)
      then (Inl (Thrown GenericError ''No address set for transaction''), c, lg)
      else
        (case transactResult env (peer env (requests lg) (transactRequest c source)) of
           Inl e \<Rightarrow> (Inl e, c, lg @ [Fetch (transactRequest c source)])
         | Inr result \<Rightarrow>
             (Inr result, c\<lparr>sequence := sequence c + 1\<rparr>,
              lg @ [Fetch (transactRequest c source)])))"
  by (simp add: transact_def fetch_def Let_def)


lemma swapSource_showLoading:
  "swapSource env (showLoading msg (s\<lparr>isSwapping := b\<rparr>)) = swapSource env s"
  by (simp add: swapSource_def showLoading_def tokenAddressOf_def split: list.splits)


lemma swapAttempt_no_source:
  assumes "swapSource env s = None"
  shows "isl (fst (swapAttempt env s)) \<and> snd (swapAttempt env s) = s"
  using assms
  by (auto simp add: swapAttempt_def swapSource_def Let_def split: list.splits if_splits)

lemma swapAttempt_unsupported:
  assumes "amountEntered s"
    and "\<not> ((fromToken s = ''CVX'' \<or> fromToken s = ''CVM'') \<and>
             toToken s \<noteq> ''CVX'' \<and> toToken s \<noteq> ''CVM'')"
    and "\<not> (fromToken s \<noteq> ''CVX'' \<and> fromToken s \<noteq> ''CVM'' \<and>
             (toToken s = ''CVX'' \<or> toToken s = ''CVM''))"
  shows "swapAttempt env s = (Inl unsupportedSwapError, s)"
  using assms
  by (auto simp add: swapAttempt_def amountEntered_def Let_def split: list.splits)

lemma amountEntered_showLoading:
  "amountEntered (showLoading msg (s\<lparr>isSwapping := b\<rparr>)) = amountEntered s"
  by (simp add: amountEntered_def showLoading_def split: list.splits)

lemma executeSwap_failure:
  assumes "isConnected s" and "\<not> isSwapping s"
    and "swapAttempt env (showLoading ''Executing swap...'' (s\<lparr>isSwapping := True\<rparr>)) = (Inl e, s2)"
  shows "executeSwap env s =
           s2\<lparr>effects := effects s2 @ [HideLoading (isConnected s2), swapFailureNotice e],
              isSwapping := False\<rparr>"
  using assms
  by (simp add: executeSwap_def Let_def swapFailed_def hideLoading_def showNotification_def
      swapFailureNotice_def)

lemma executeSwap_success:
  assumes "isConnected s" and "\<not> isSwapping s"
    and "swapAttempt env (showLoading ''Executing swap...'' (s\<lparr>isSwapping := True\<rparr>)) = (Inr r, s2)"
  shows "executeSwap env s = (swapSucceeded env s2)\<lparr>isSwapping := False\<rparr>"
  using assms by (simp add: executeSwap_def Let_def)

subsection \<open>An error code in the answer to a transaction\<close>






subsection \<open>Pairs that are neither a purchase nor a sale\<close>

lemma not_swapping_same: "\<not> isSwapping s \<Longrightarrow> s\<lparr>isSwapping := False\<rparr> = s"
  by (cases s) simp

lemma executeSwap_no_source:
  assumes "swapSource env s = None"
  shows "requests (effects (executeSwap env s)) = requests (effects s)"
proof (cases "\<not> isConnected s \<or> isSwapping s")
  case True
  then show ?thesis
    by (auto simp add: executeSwap_def showNotification_def requests_append)
next
  case ns: False
  then have c: "isConnected s" and False: "\<not> isSwapping s" by simp_all
  let ?s1 = "showLoading ''Executing swap...'' (s\<lparr>isSwapping := True\<rparr>)"
  have "swapSource env ?s1 = None"
    using assms by (simp add: swapSource_showLoading)
  then have att: "isl (fst (swapAttempt env ?s1)) \<and> snd (swapAttempt env ?s1) = ?s1"
    by (rule swapAttempt_no_source)
  then obtain e where e: "swapAttempt env ?s1 = (Inl e, ?s1)"
    by (cases "swapAttempt env ?s1"; cases "fst (swapAttempt env ?s1)") auto
  from executeSwap_failure [OF c False e] show ?thesis
    by (simp add: showLoading_def requests_append swapFailureNotice_def)
qed

lemma executeSwap_unsupported:
  assumes "isConnected s" and "\<not> isSwapping s" and "amountEntered s"
    and "\<not> ((fromToken s = ''CVX'' \<or> fromToken s = ''CVM'') \<and>
             toToken s \<noteq> ''CVX'' \<and> toToken s \<noteq> ''CVM'')"
    and "\<not> (fromToken s \<noteq> ''CVX'' \<and> fromToken s \<noteq> ''CVM'' \<and>
             (toToken s = ''CVX'' \<or> toToken s = ''CVM''))"
  shows "swapAttempt env (showLoading ''Executing swap...'' (s\<lparr>isSwapping := True\<rparr>)) =
           (Inl unsupportedSwapError,
            showLoading ''Executing swap...'' (s\<lparr>isSwapping := True\<rparr>)) \<and>
         executeSwap env s =
           s\<lparr>effects := effects s @
                [ShowLoading ''Executing swap...'', HideLoading True,
                 swapFailureNotice unsupportedSwapError]\<rparr>"
proof -
  let ?s1 = "showLoading ''Executing swap...'' (s\<lparr>isSwapping := True\<rparr>)"
  have att: "swapAttempt env ?s1 = (Inl unsupportedSwapError, ?s1)"
    using assms(3-5)
    by (intro swapAttempt_unsupported) (simp_all add: amountEntered_showLoading, simp_all add: showLoading_def)
  have "executeSwap env s =
      s\<lparr>effects := effects s @
           [ShowLoading ''Executing swap...'', HideLoading True,
            swapFailureNotice unsupportedSwapError]\<rparr>\<lparr>isSwapping := False\<rparr>"
    using executeSwap_failure [OF assms(1,2) att] assms(1) by (simp add: showLoading_def)
  also have "\<dots> = s\<lparr>effects := effects s @
           [ShowLoading ''Executing swap...'', HideLoading True,
            swapFailureNotice unsupportedSwapError]\<rparr>"
    using assms(2) by (intro not_swapping_same) simp
  finally show ?thesis using att by simp
qed

text \<open>
  C1, as amended. In a connected state whose two tokens are both other than CVX and CVM,
  \<^verbatim>\<open>executeSwap\<close> sends no request, whatever else the state holds. When moreover no swap is
  in flight and the first amount input holds a valid positive amount, the \<^verbatim>\<open>try\<close> block
  throws the token-to-token error, which differs from the error for an invalid amount, and
  the run ends in the state it started from with three more effects: the loading message,
  its removal and the notification of that error.
\<close>

theorem executeSwap_token_to_token:
  assumes "isConnected s"
    and "fromToken s \<noteq> ''CVX''" and "fromToken s \<noteq> ''CVM''"
    and "toToken s \<noteq> ''CVX''" and "toToken s \<noteq> ''CVM''"
  shows "requests (effects (executeSwap env s)) = requests (effects s) \<and>
         (\<not> isSwapping s \<and> amountEntered s \<longrightarrow>
            fst (swapAttempt env (showLoading ''Executing swap...'' (s\<lparr>isSwapping := True\<rparr>))) =
              Inl unsupportedSwapError \<and>
            executeSwap env s =
              s\<lparr>effects := effects s @
                   [ShowLoading ''Executing swap...'', HideLoading True,
                    swapFailureNotice unsupportedSwapError]\<rparr>) \<and>
         unsupportedSwapError \<noteq> invalidAmountError"
proof -
  have "swapSource env s = None"
    using assms(2-5) by (simp add: swapSource_def split: list.splits)
  then have "requests (effects (executeSwap env s)) = requests (effects s)"
    by (rule executeSwap_no_source)
  moreover have "fst (swapAttempt env (showLoading ''Executing swap...'' (s\<lparr>isSwapping := True\<rparr>))) =
              Inl unsupportedSwapError \<and>
            executeSwap env s =
              s\<lparr>effects := effects s @
                   [ShowLoading ''Executing swap...'', HideLoading True,
                    swapFailureNotice unsupportedSwapError]\<rparr>"
    if "\<not> isSwapping s \<and> amountEntered s"
    using executeSwap_unsupported [of s env] assms that by simp
  moreover have "unsupportedSwapError \<noteq> invalidAmountError"
    by (simp add: unsupportedSwapError_def invalidAmountError_def)
  ultimately show ?thesis by blast
qed

theorem executeSwap_token_to_token_witness:
  "amountEntered ((connectedPage [''5'', []])\<lparr>fromToken := ''PAI'', toToken := ''USDC''\<rparr>) \<and>
   executeSwap (envOf (peerValue (JNum (Fin 7))))
     ((connectedPage [''5'', []])\<lparr>fromToken := ''PAI'', toToken := ''USDC''\<rparr>) =
   (connectedPage [''5'', []])
     \<lparr>fromToken := ''PAI'', toToken := ''USDC'',
      effects :=
        [ShowLoading ''Executing swap...'', HideLoading True,
         Notify (icon ''error'' @
           '' Swap failed: Token-to-token swaps not implemented yet. Please swap through CVX.'')]\<rparr>"
proof -
  let ?s = "(connectedPage [''5'', []])\<lparr>fromToken := ''PAI'', toToken := ''USDC''\<rparr>"
  have a: "amountEntered ?s"
    by (simp add: amountEntered_def connectedPage_def constructor_def parseFloat_5 num_falsy_def)
  from executeSwap_token_to_token [of ?s "envOf (peerValue (JNum (Fin 7)))"] a show ?thesis
    by (simp add: connectedPage_def constructor_def swapFailureNotice_def
        unsupportedSwapError_def)
qed

text \<open>
  The claim as first stated, for every connected state, fails when the amount input is
  empty: the amount is checked before the tokens, and the error is that of an invalid
  amount.
\<close>

theorem executeSwap_token_to_token_counterexample:
  "isConnected ((connectedPage [[], []])\<lparr>fromToken := ''PAI'', toToken := ''USDC''\<rparr>) \<and>
   fst (swapAttempt (envOf (peerValue (JNum (Fin 7))))
          (showLoading ''Executing swap...''
             ((connectedPage [[], []])\<lparr>fromToken := ''PAI'', toToken := ''USDC'',
                isSwapping := True\<rparr>))) = Inl invalidAmountError \<and>
   invalidAmountError \<noteq> unsupportedSwapError \<and>
   effects (executeSwap (envOf (peerValue (JNum (Fin 7))))
     ((connectedPage [[], []])\<lparr>fromToken := ''PAI'', toToken := ''USDC''\<rparr>)) =
     [ShowLoading ''Executing swap...'', HideLoading True,
      Notify (icon ''error'' @ '' Swap failed: Please enter a valid amount'')]"
  by (simp add: connectedPage_def constructor_def executeSwap_def swapAttempt_def
      showLoading_def hideLoading_def showNotification_def swapFailed_def parseFloat_empty
      num_falsy_def invalidAmountError_def unsupportedSwapError_def Let_def)

text \<open>
  C10, as amended. In a state whose two tokens are both among CVX and CVM, \<^verbatim>\<open>executeSwap\<close>
  sends no request, so it neither buys nor sells. When moreover the state is connected, no
  swap is in flight and the first amount input holds a valid positive amount, the \<^verbatim>\<open>try\<close>
  block throws the same token-to-token error as for a pair of two other tokens, and the run
  ends in the state it started from with three more effects: the loading message, its
  removal and the notification of that error.
\<close>

theorem executeSwap_native_to_native:
  assumes "fromToken s = ''CVX'' \<or> fromToken s = ''CVM''"
    and "toToken s = ''CVX'' \<or> toToken s = ''CVM''"
  shows "requests (effects (executeSwap env s)) = requests (effects s) \<and>
         (isConnected s \<and> \<not> isSwapping s \<and> amountEntered s \<longrightarrow>
            fst (swapAttempt env (showLoading ''Executing swap...'' (s\<lparr>isSwapping := True\<rparr>))) =
              Inl unsupportedSwapError \<and>
            executeSwap env s =
              s\<lparr>effects := effects s @
                   [ShowLoading ''Executing swap...'', HideLoading True,
                    swapFailureNotice unsupportedSwapError]\<rparr>)"
proof -
  have "swapSource env s = None"
    using assms by (auto simp add: swapSource_def split: list.splits)
  then have "requests (effects (executeSwap env s)) = requests (effects s)"
    by (rule executeSwap_no_source)
  moreover have "fst (swapAttempt env (showLoading ''Executing swap...'' (s\<lparr>isSwapping := True\<rparr>))) =
              Inl unsupportedSwapError \<and>
            executeSwap env s =
              s\<lparr>effects := effects s @
                   [ShowLoading ''Executing swap...'', HideLoading True,
                    swapFailureNotice unsupportedSwapError]\<rparr>"
    if "isConnected s \<and> \<not> isSwapping s \<and> amountEntered s"
    using executeSwap_unsupported [of s env] assms that by auto
  ultimately show ?thesis by blast
qed

theorem executeSwap_native_to_native_witness:
  "amountEntered ((connectedPage [''5'', []])\<lparr>toToken := ''CVM''\<rparr>) \<and>
   executeSwap (envOf (peerValue (JNum (Fin 7)))) ((connectedPage [''5'', []])\<lparr>toToken := ''CVM''\<rparr>) =
   (connectedPage [''5'', []])
     \<lparr>toToken := ''CVM'',
      effects :=
        [ShowLoading ''Executing swap...'', HideLoading True,
         Notify (icon ''error'' @
           '' Swap failed: Token-to-token swaps not implemented yet. Please swap through CVX.'')]\<rparr>"
proof -
  let ?s = "(connectedPage [''5'', []])\<lparr>toToken := ''CVM''\<rparr>"
  have a: "amountEntered ?s"
    by (simp add: amountEntered_def connectedPage_def constructor_def parseFloat_5 num_falsy_def)
  from executeSwap_native_to_native [of ?s "envOf (peerValue (JNum (Fin 7)))"] a show ?thesis
    by (simp add: connectedPage_def constructor_def swapFailureNotice_def
        unsupportedSwapError_def)
qed

text \<open>
  The claim as first stated, for every state with such a pair, fails when the amount input
  is empty (the error is that of an invalid amount) and when the page is not connected
  (nothing is thrown; the only effect is the notification to connect the wallet).
\<close>

theorem executeSwap_native_to_native_counterexample:
  "fst (swapAttempt (envOf (peerValue (JNum (Fin 7))))
          (showLoading ''Executing swap...''
             ((connectedPage [[], []])\<lparr>toToken := ''CVM'', isSwapping := True\<rparr>))) =
     Inl invalidAmountError \<and>
   invalidAmountError \<noteq> unsupportedSwapError \<and>
   effects (executeSwap (envOf (peerValue (JNum (Fin 7))))
     ((connectedPage [[], []])\<lparr>toToken := ''CVM''\<rparr>)) =
     [ShowLoading ''Executing swap...'', HideLoading True,
      Notify (icon ''error'' @ '' Swap failed: Please enter a valid amount'')] \<and>
   effects (executeSwap (envOf (peerValue (JNum (Fin 7))))
     ((constructor [''5'', []])\<lparr>toToken := ''CVM''\<rparr>)) =
     [Notify (icon ''error'' @ '' Please connect your wallet first'')]"
  by (simp add: connectedPage_def constructor_def executeSwap_def swapAttempt_def
      showLoading_def hideLoading_def showNotification_def swapFailed_def parseFloat_empty
      num_falsy_def invalidAmountError_def unsupportedSwapError_def Let_def)

subsection \<open>The end of a swap\<close>







lemmas sample_eval = connectedPage_def constructor_def demoClient_def envOf_def peerValue_def
  peerError_def peerNullError_def



subsection \<open>The estimate\<close>

lemma digitChar_isDigit: "d < 10 \<Longrightarrow> isDigit (digitChar d)"
  unfolding isDigit_def digitChar_def by (rule nth_mem) simp

lemma showNat_digits: "list_all isDigit (showNat n)"
proof (induction n rule: showNat.induct)
  case (1 n)
  show ?case
  proof (cases "n < 10")
    case True
    then show ?thesis by (subst showNat.simps) (simp add: digitChar_isDigit)
  next
    case False
    with 1 show ?thesis by (subst showNat.simps) (simp add: digitChar_isDigit)
  qed
qed

lemma hasFourDecimals_intro:
  assumes "length fs = 4" and "list_all isDigit fs"
  shows "hasFourDecimals (pre @ ''.'' @ fs)"
  using assms by (simp add: hasFourDecimals_def nth_append)

lemma toFixed_four_decimals:
  assumes "\<bar>r\<bar> < 10 ^ 21"
  shows "hasFourDecimals (toFixed fts 4 (Fin r))"
proof -
  define m where "m = showNat (nat \<lfloor>\<bar>r\<bar> * 10 ^ 4 + 1 / 2\<rfloor>)"
  define m' where "m' = replicate (4 + 1 - length m) CHR ''0'' @ m"
  define sg where "sg = (if r < 0 then ''-'' else [])"
  have len: "5 \<le> length m'" by (simp add: m'_def)
  have zeros: "list_all isDigit (replicate k CHR ''0'')" for k
    by (induction k) (simp_all add: isDigit_def)
  have dig: "list_all isDigit m'"
    by (simp add: m'_def m_def showNat_digits zeros)
  have "toFixed fts 4 (Fin r) =
      (sg @ take (length m' - 4) m') @ ''.'' @ drop (length m' - 4) m'"
    using assms by (simp add: toFixed_def Let_def m_def m'_def sg_def)
  moreover have "length (drop (length m' - 4) m') = 4" using len by simp
  moreover have "list_all isDigit (drop (length m' - 4) m')"
    using dig by (metis append_take_drop_id list_all_append)
  ultimately show ?thesis by (simp only: hasFourDecimals_intro)
qed

lemma estimate_100: "js_mul (Fin 100) slippage = Fin 97"
  unfolding slippage_value js_mul.simps
  by (rule round64_pos [where e = 6 and n = "97 * 2 ^ 46"]) (simp_all add: round_eval)

text \<open>
  C6, as amended. In a connected state on a page with an output field,
  \<^verbatim>\<open>onFromAmountChange("100")\<close> writes \<^verbatim>\<open>97.0000\<close> to the output field. For every input
  that passes the guard (not empty, numeric, above zero; white space around the digits,
  ASCII or not, is allowed by the conversion), \<^verbatim>\<open>fromAmount\<close> becomes
  \<^verbatim>\<open>parseFloat\<close> of the input, \<^verbatim>\<open>toAmount\<close> its product with the double 0.97, and the
  output field \<^verbatim>\<open>toFixed(4)\<close> of that product, which ends in a point and four digits
  whenever the product is finite and below \<open>10^21\<close> in magnitude.
\<close>

theorem onFromAmountChange_estimate:
  assumes "isConnected s" and "1 < length (amountInputs s)"
  shows "amountInputs (onFromAmountChange env ''100'' s) ! 1 = ''97.0000'' \<and>
         fromAmount (onFromAmountChange env ''100'' s) = Fin 100 \<and>
         toAmount (onFromAmountChange env ''100'' s) = Fin 97 \<and>
         (\<forall>amount.
            amount \<noteq> [] \<and> stringToNumber amount \<noteq> NaN \<and>
            \<not> js_le_zero (stringToNumber amount) \<longrightarrow>
            fromAmount (onFromAmountChange env amount s) = parseFloat amount \<and>
            toAmount (onFromAmountChange env amount s) = js_mul (parseFloat amount) slippage \<and>
            amountInputs (onFromAmountChange env amount s) ! 1 =
              toFixed (finiteToString env) 4 (js_mul (parseFloat amount) slippage) \<and>
            (\<forall>r. js_mul (parseFloat amount) slippage = Fin r \<and> \<bar>r\<bar> < 10 ^ 21 \<longrightarrow>
               hasFourDecimals (amountInputs (onFromAmountChange env amount s) ! 1)))"
proof -
  have gen: "fromAmount (onFromAmountChange env amount s) = parseFloat amount \<and>
      toAmount (onFromAmountChange env amount s) = js_mul (parseFloat amount) slippage \<and>
      amountInputs (onFromAmountChange env amount s) ! 1 =
        toFixed (finiteToString env) 4 (js_mul (parseFloat amount) slippage)"
    if "amount \<noteq> [] \<and> stringToNumber amount \<noteq> NaN \<and> \<not> js_le_zero (stringToNumber amount)"
    for amount
    using that assms by (simp add: onFromAmountChange_def Let_def)
  have four: "hasFourDecimals (amountInputs (onFromAmountChange env amount s) ! 1)"
    if "amount \<noteq> [] \<and> stringToNumber amount \<noteq> NaN \<and> \<not> js_le_zero (stringToNumber amount)"
      and "js_mul (parseFloat amount) slippage = Fin r \<and> \<bar>r\<bar> < 10 ^ 21"
    for amount r
    using gen [OF that(1)] that(2) toFixed_four_decimals [of r "finiteToString env"] by simp
  have "''100'' \<noteq> [] \<and> stringToNumber ''100'' \<noteq> NaN \<and> \<not> js_le_zero (stringToNumber ''100'')"
    by (simp add: stringToNumber_100)
  from gen [OF this] have hundred:
    "amountInputs (onFromAmountChange env ''100'' s) ! 1 = ''97.0000'' \<and>
     fromAmount (onFromAmountChange env ''100'' s) = Fin 100 \<and>
     toAmount (onFromAmountChange env ''100'' s) = Fin 97"
    by (simp add: parseFloat_100 estimate_100 toFixed_97)
  from hundred gen four show ?thesis by blast
qed

theorem onFromAmountChange_estimate_witness:
  "isConnected (connectedPage [''100'', []]) \<and>
   1 < length (amountInputs (connectedPage [''100'', []])) \<and>
   onFromAmountChange (envOf (peerValue JNull)) ''100'' (connectedPage [''100'', []]) =
     (connectedPage [''100'', ''97.0000''])\<lparr>fromAmount := Fin 100, toAmount := Fin 97\<rparr> \<and>
   hasFourDecimals ''97.0000'' \<and>
   onFromAmountChange (envOf (peerValue JNull)) (CHR 0xC2 # CHR 0xA0 # ''100'')
     (connectedPage [''100'', []]) =
     (connectedPage [''100'', ''97.0000''])\<lparr>fromAmount := Fin 100, toAmount := Fin 97\<rparr>"
proof -
  let ?s = "connectedPage [''100'', []]"
  let ?env = "envOf (peerValue JNull)"
  have c: "isConnected ?s" and l: "1 < length (amountInputs ?s)"
    by (simp_all add: sample_eval)
  note all = onFromAmountChange_estimate [OF c l, of ?env]
  have g: "''100'' \<noteq> [] \<and> stringToNumber ''100'' \<noteq> NaN \<and> \<not> js_le_zero (stringToNumber ''100'')"
    by (simp add: stringToNumber_100)
  have p: "js_mul (parseFloat ''100'') slippage = Fin 97 \<and> \<bar>97 :: rat\<bar> < 10 ^ 21"
    by (simp add: parseFloat_100 estimate_100)
  note four = all [THEN conjunct2, THEN conjunct2, THEN conjunct2, rule_format, OF g,
      THEN conjunct2, THEN conjunct2, THEN conjunct2, rule_format, OF p]
  have "onFromAmountChange ?env ''100'' ?s =
      (connectedPage [''100'', ''97.0000''])\<lparr>fromAmount := Fin 100, toAmount := Fin 97\<rparr>"
    by (simp add: onFromAmountChange_def sample_eval stringToNumber_100 parseFloat_100
        estimate_100 toFixed_97 Let_def)
  moreover have "onFromAmountChange ?env (CHR 0xC2 # CHR 0xA0 # ''100'') ?s =
      (connectedPage [''100'', ''97.0000''])\<lparr>fromAmount := Fin 100, toAmount := Fin 97\<rparr>"
    by (simp add: onFromAmountChange_def sample_eval stringToNumber_nbsp_100
        parseFloat_nbsp_100 estimate_100 toFixed_97 Let_def)
  ultimately show ?thesis using four c l by (simp add: sample_eval)
qed

text \<open>
  The claim as first stated, for every state, fails in the state the constructor builds,
  which is not connected: the guard of \<^verbatim>\<open>onFromAmountChange\<close> clears the output field and
  computes nothing.
\<close>

theorem onFromAmountChange_estimate_counterexample:
  "\<not> isConnected (constructor [''100'', ''12.0000'']) \<and>
   onFromAmountChange (envOf (peerValue JNull)) ''100'' (constructor [''100'', ''12.0000'']) =
     constructor [''100'', []] \<and>
   toAmount (onFromAmountChange (envOf (peerValue JNull)) ''100''
     (constructor [''100'', ''12.0000''])) = Fin 0"
  by (simp add: onFromAmountChange_def constructor_def)

text \<open>
  The guard converts the whole input to a number, the computation reads it with
  \<^verbatim>\<open>parseFloat\<close>, and the two differ on a hexadecimal literal: \<^verbatim>\<open>"0x10"\<close> is 16 for the guard
  and 0 for the estimate. This is why the amended statement speaks of \<^verbatim>\<open>parseFloat\<close> of the
  input. (An \<^verbatim>\<open>input\<close> element of type \<^verbatim>\<open>number\<close> does not hand out such a string.)
\<close>

lemma onFromAmountChange_hexadecimal:
  "stringToNumber ''0x10'' = Fin 16 \<and>
   onFromAmountChange (envOf (peerValue JNull)) ''0x10'' (connectedPage [''0x10'', []]) =
     (connectedPage [''0x10'', ''0.0000''])\<lparr>fromAmount := Fin 0, toAmount := Fin 0\<rparr>"
  by (simp add: onFromAmountChange_def sample_eval stringToNumber_hex parseFloat_hex
      slippage_value round64_0 toFixed_0 Let_def)

subsection \<open>A call while a swap is in flight\<close>

lemma transactRequests_append:
  "transactRequests (xs @ ys) = transactRequests xs @ transactRequests ys"
  by (simp add: transactRequests_def requests_append)


lemma queryRequest_is_not: "\<not> isTransactRequest (queryRequest c a source)"
proof
  let ?u = "peerUrl c @ ''/api/v1/query''"
  assume "isTransactRequest (queryRequest c a source)"
  then have eq: "drop (length ?u - 16) ?u = ''/api/v1/transact''"
    by (simp add: isTransactRequest_def queryRequest_def)
  have "length ?u - 16 < length ?u" by simp
  then have "last (drop (length ?u - 16) ?u) = last ?u" by (rule last_drop)
  with eq show False by simp
qed

lemma getTokenBalance_transactRequests:
  "transactRequests (effects (snd (getTokenBalance env symb s))) = transactRequests (effects s)"
proof (cases "convexClient s")
  case None
  then show ?thesis by (simp add: getTokenBalance_no_client)
next
  case (Some c)
  show ?thesis
  proof (cases "\<not> truthy (tokenAddressOf env s symb) \<or> symb = ''CVX'' \<or> symb = ''CVM''")
    case True
    from getTokenBalance_native [OF Some True] show ?thesis
      by (simp add: transactRequests_def requests_append queryRequest_is_not)
  next
    case False
    then have "truthy (tokenAddressOf env s symb) \<and> symb \<noteq> ''CVX'' \<and> symb \<noteq> ''CVM''"
      by simp
    from getTokenBalance_contract [OF Some this] show ?thesis
      by (simp add: transactRequests_def requests_append queryRequest_is_not)
  qed
qed

lemma getTokenBalance_extends:
  "\<exists>l. effects (snd (getTokenBalance env symb s)) = effects s @ l"
proof (cases "convexClient s")
  case None
  then show ?thesis by (simp add: getTokenBalance_no_client)
next
  case (Some c)
  show ?thesis
  proof (cases "\<not> truthy (tokenAddressOf env s symb) \<or> symb = ''CVX'' \<or> symb = ''CVM''")
    case True
    from getTokenBalance_native [OF Some True] show ?thesis by simp
  next
    case False
    then have "truthy (tokenAddressOf env s symb) \<and> symb \<noteq> ''CVX'' \<and> symb \<noteq> ''CVM''"
      by simp
    from getTokenBalance_contract [OF Some this] show ?thesis by simp
  qed
qed

lemma updateBalances_effects:
  "transactRequests (effects (updateBalances env s)) = transactRequests (effects s) \<and>
   (\<exists>l. effects (updateBalances env s) = effects s @ l)"
proof (cases "\<not> isConnected s \<or> convexClient s = None")
  case True
  then show ?thesis by (auto simp add: updateBalances_def)
next
  case False
  obtain b1 s1 where g1: "getTokenBalance env (fromToken s) s = (b1, s1)"
    by (cases "getTokenBalance env (fromToken s) s")
  obtain b2 s2 where g2: "getTokenBalance env (toToken s1) s1 = (b2, s2)"
    by (cases "getTokenBalance env (toToken s1) s1")
  from g1 have t1: "transactRequests (effects s1) = transactRequests (effects s)"
    using getTokenBalance_transactRequests [of env "fromToken s" s] by simp
  from g2 have t2: "transactRequests (effects s2) = transactRequests (effects s1)"
    using getTokenBalance_transactRequests [of env "toToken s1" s1] by simp
  from g1 obtain l1 where e1: "effects s1 = effects s @ l1"
    using getTokenBalance_extends [of env "fromToken s" s] by auto
  from g2 obtain l2 where e2: "effects s2 = effects s1 @ l2"
    using getTokenBalance_extends [of env "toToken s1" s1] by auto
  from False g1 g2 have u: "effects (updateBalances env s) =
      effects s2 @ [RenderBalances (formatBalance env b1) (formatBalance env b2)]"
    by (auto simp add: updateBalances_def)
  have "transactRequests (effects (updateBalances env s)) = transactRequests (effects s)"
    unfolding u using t1 t2 by (simp add: transactRequests_def requests_append)
  moreover have "effects (updateBalances env s) =
      effects s @ (l1 @ l2 @ [RenderBalances (formatBalance env b1) (formatBalance env b2)])"
    unfolding u e2 e1 by simp
  ultimately show ?thesis by blast
qed










text \<open>
  The part of \<^verbatim>\<open>executeSwap\<close> up to the request agrees with the whole: a run that ends
  without a request ends in the state of the whole run, and a run that waits has produced
  the first effects of the whole run.
\<close>

lemma transactStart_thrown:
  "transactStart c source = Inl e \<Longrightarrow> transact env c source lg = (Inl e, c, lg)"
  by (auto simp add: transactStart_def transact_def split: if_splits)

lemma transactStart_sent:
  "transactStart c source = Inr req \<Longrightarrow>
     snd (snd (transact env c source lg)) = lg @ [Fetch req]"
  by (auto simp add: transactStart_def transact_cases split: if_splits sum.splits)

lemma swapAttemptStart_thrown:
  assumes "swapAttemptStart env s = Inl e"
  shows "swapAttempt env s = (Inl e, s)"
  using assms
  by (auto simp add: swapAttemptStart_def swapAttempt_def buyTokens_def sellTokens_def Let_def
      transactStart_thrown split: list.splits if_splits option.splits)

lemma swapAttemptStart_sent:
  assumes "swapAttemptStart env s = Inr req"
  shows "effects (snd (swapAttempt env s)) = effects s @ [Fetch req]"
  using assms
  by (auto simp add: swapAttemptStart_def swapAttempt_def buyTokens_def sellTokens_def Let_def
      unsupportedSwapError_def invalidAmountError_def
      split: list.splits if_splits option.splits prod.splits
      dest: transactStart_sent [where env = env and lg = "effects s"])

lemma executeSwapStart_done:
  assumes "executeSwapStart env s = (s', None)"
  shows "executeSwap env s = s'"
proof (cases "\<not> isConnected s \<or> isSwapping s")
  case True
  with assms show ?thesis by (auto simp add: executeSwapStart_def executeSwap_def)
next
  case False
  let ?s1 = "showLoading ''Executing swap...'' (s\<lparr>isSwapping := True\<rparr>)"
  from False assms obtain e where a: "swapAttemptStart env ?s1 = Inl e"
    and s': "s' = (swapFailed e ?s1)\<lparr>isSwapping := False\<rparr>"
    by (auto simp add: executeSwapStart_def Let_def split: sum.splits)
  from swapAttemptStart_thrown [OF a] False s' show ?thesis
    by (simp add: executeSwap_def Let_def)
qed

lemma executeSwapStart_prefix:
  assumes "executeSwapStart env s = (s1, Some req)"
  shows "\<exists>l. effects (executeSwap env s) = effects s1 @ l"
proof -
  let ?s1 = "showLoading ''Executing swap...'' (s\<lparr>isSwapping := True\<rparr>)"
  from assms have c: "isConnected s" and n: "\<not> isSwapping s"
    by (auto simp add: executeSwapStart_def split: if_splits)
  with assms have a: "swapAttemptStart env ?s1 = Inr req"
    and s1: "s1 = ?s1\<lparr>effects := effects ?s1 @ [Fetch req]\<rparr>"
    by (auto simp add: executeSwapStart_def Let_def split: sum.splits)
  obtain r s2 where att: "swapAttempt env ?s1 = (r, s2)" by (cases "swapAttempt env ?s1")
  with swapAttemptStart_sent [OF a] s1 have e2: "effects s2 = effects s1" by simp
  show ?thesis
  proof (cases r)
    case (Inl e)
    from executeSwap_failure [OF c n att [unfolded Inl]] e2 show ?thesis by simp
  next
    case (Inr v)
    let ?s3 = "(showNotification ''Swap completed successfully!'' ''success'' (hideLoading s2))
              \<lparr>amountInputs := map (\<lambda>v. []) (amountInputs s2),
               fromAmount := Fin 0, toAmount := Fin 0\<rparr>"
    from executeSwap_success [OF c n att [unfolded Inr]]
    have "effects (executeSwap env s) = effects (updateBalances env ?s3)"
      by (simp add: swapSucceeded_def Let_def showNotification_def hideLoading_def)
    moreover obtain l where "effects (updateBalances env ?s3) = effects ?s3 @ l"
      using updateBalances_effects [of env ?s3] by blast
    ultimately show ?thesis using e2 by (simp add: showNotification_def hideLoading_def)
  qed
qed





end
